theory Spec2Isabelle
  imports Main
begin

section \<open>Values of the Go program\<close>

text \<open>
  A Go \<^verbatim>\<open>error\<close> is an interface value: \<^verbatim>\<open>nil\<close> is \<open>None\<close>, anything else is
  \<open>Some e\<close>. \<^verbatim>\<open>rpc.ErrShutdown\<close> and the two errors of package \<^verbatim>\<open>context\<close> are
  compared by identity in the code, so they are constructors of their own; every other
  error (a dial failure, a codec error, an error of the remote method) is \<open>ErrOther\<close>
  with its text.
\<close>

datatype error = ErrShutdown | DeadlineExceeded | Canceled | ErrOther string

fun error_text :: "error \<Rightarrow> string" where
  "error_text ErrShutdown = ''connection is shut down''"
| "error_text DeadlineExceeded = ''context deadline exceeded''"
| "error_text Canceled = ''context canceled''"
| "error_text (ErrOther s) = s"

text \<open>\<^verbatim>\<open>time.Duration\<close> counts nanoseconds.\<close>

type_synonym Duration = int

definition Millisecond :: Duration where
  "Millisecond = 1000000"

definition Second :: Duration where
  "Second = 1000 * Millisecond"

text \<open>
  Arguments and replies are \<^verbatim>\<open>interface{}\<close> values; the heartbeat sends the empty
  struct.
\<close>

datatype payload = EmptyStruct | Value string

text \<open>
  A function that waits on a channel either returns or waits forever.
\<close>

datatype 'a blocking = Blocked | Returned 'a

text \<open>
  A cancellation token (\<^verbatim>\<open>context.Context\<close>). \<open>Background\<close> is
  \<^verbatim>\<open>context.Background()\<close>, which the code recognises by identity. \<open>Token None\<close> is any
  other token that never fires, \<open>Token (Some (t, e))\<close> one whose \<^verbatim>\<open>Done()\<close> channel
  becomes readable \<open>t\<close> nanoseconds after the function that is given the token has
  been entered (\<open>0\<close>: it has fired already) and whose \<^verbatim>\<open>Err()\<close> is then \<open>e\<close>.
  \<open>WithValue c v\<close> is the token \<open>c\<close> carrying the value \<open>v\<close>; it fires when \<open>c\<close> does.
\<close>

datatype ctx = Background | Token "(nat \<times> error) option" | WithValue ctx string

fun ctx_fires :: "ctx \<Rightarrow> (nat \<times> error) option" where
  "ctx_fires Background = None"
| "ctx_fires (Token f) = f"
| "ctx_fires (WithValue c v) = ctx_fires c"

text \<open>
  Modelled from the spec: \<^verbatim>\<open>peer.NewContext\<close> of package \<^verbatim>\<open>peer\<close> of this repository,
  which is not among the sources at hand. The interceptors receive the "cancellation
  token enriched with the remote address as contextual metadata".
\<close>

definition peer_NewContext :: "ctx \<Rightarrow> string \<Rightarrow> ctx" where
  "peer_NewContext c addr = WithValue c addr"

definition ctx_Done :: "ctx \<Rightarrow> nat option" where
  "ctx_Done c = map_option fst (ctx_fires c)"

definition ctx_Err :: "ctx \<Rightarrow> error option" where
  "ctx_Err c = map_option snd (ctx_fires c)"

text \<open>
  The same channel seen by a \<^verbatim>\<open>select\<close> that starts \<open>k\<close> nanoseconds after the
  function was entered: a token that fired in the meantime is ready at once.
\<close>

definition ctx_Done_after :: "nat \<Rightarrow> ctx \<Rightarrow> nat option" where
  "ctx_Done_after k c = map_option (\<lambda>d. d - k) (ctx_Done c)"

text \<open>\<^verbatim>\<open>context.WithTimeout(context.Background(), d)\<close>.\<close>

definition context_WithTimeout :: "Duration \<Rightarrow> ctx" where
  "context_WithTimeout d = Token (Some (nat d, DeadlineExceeded))"

text \<open>
  A \<^verbatim>\<open>select\<close> over two receive cases. Each channel is given by the time at which it
  becomes readable (\<open>None\<close>: never). The case that is ready first runs; when both are
  ready at the same moment Go picks one of them at random, which is the flag \<open>pick\<close>.
\<close>

datatype select_case = FirstCase | SecondCase

definition select2 :: "bool \<Rightarrow> nat option \<Rightarrow> nat option \<Rightarrow> select_case blocking" where
  "select2 pick a b =
     (case a of
        None \<Rightarrow> (case b of None \<Rightarrow> Blocked | Some y \<Rightarrow> Returned SecondCase)
      | Some x \<Rightarrow>
          (case b of
             None \<Rightarrow> Returned FirstCase
           | Some y \<Rightarrow>
               Returned (if x < y then FirstCase
                         else if y < x then SecondCase
                         else if pick then FirstCase else SecondCase)))"

section \<open>The collaborators: net/rpc sessions, the dialer, the logger\<close>

text \<open>
  A session is a \<^verbatim>\<open>*rpc.Client\<close>; it is named by its address. The world outside the
  wrapper is: which sessions have had \<^verbatim>\<open>Close\<close> called on them (the field
  \<^verbatim>\<open>closing\<close> of \<^verbatim>\<open>rpc.Client\<close>), the next address \<^verbatim>\<open>rpc.NewClient\<close> will hand out,
  and three logs: the dial attempts, the calls of \<^verbatim>\<open>rpc.Client.Go\<close> and the lines
  written through \<^verbatim>\<open>Logger.Errorf\<close>.
\<close>

type_synonym session = nat

datatype Logger = defaultLogger | UserLogger nat

record Dialer =
  Timeout :: Duration
  KeepAlive :: Duration
  DualStack :: bool

record world =
  closing :: "session set"
  nextSession :: session
  dials :: "(Dialer \<times> string \<times> string) list"
  goCalls :: "(session \<times> string \<times> payload) list"
  logged :: "(Logger \<times> string) list"

text \<open>
  What the network, the server and the scheduler do during one operation is not
  decided by the program; it is the parameter \<open>env\<close>: the result of closing a
  session's codec, the result of the dial, how long \<^verbatim>\<open>rpc.Client.Go\<close> on a live
  session takes to write the request and return (\<open>None\<close>: the write never finishes
  and \<^verbatim>\<open>Go\<close> never returns), when and how the call it returns completes, how long the
  goroutine of \<^verbatim>\<open>goContext\<close> takes to get to its call of \<^verbatim>\<open>Go\<close>, and the choice of
  a \<^verbatim>\<open>select\<close> between two ready cases.
\<close>

record env =
  codec_Close :: "session \<Rightarrow> error option"
  dialer_Dial :: "error option"
  go_returns :: "session \<Rightarrow> string \<Rightarrow> payload \<Rightarrow> nat option"
  call_Done :: "session \<Rightarrow> string \<Rightarrow> payload \<Rightarrow> nat option"
  call_Error :: "session \<Rightarrow> string \<Rightarrow> payload \<Rightarrow> error option"
  delegation :: nat
  pick :: bool

text \<open>
  \<^verbatim>\<open>rpc.Call\<close>, the future of an asynchronous call. \<open>Done\<close> is the time, counted from
  the moment the call is handed to its caller, at which the call is delivered on its
  \<^verbatim>\<open>Done\<close> channel: \<open>Some 0\<close> for a call that is complete already, \<open>None\<close> for one
  that never completes.
\<close>

record rpc_Call =
  ServiceMethod :: string
  Args :: payload
  Reply :: payload
  Error :: "error option"
  Done :: "nat option"

text \<open>
  \<^verbatim>\<open>rpc.Client.Close\<close> of the Go standard library, as far as the wrapper depends on
  it: it returns \<^verbatim>\<open>ErrShutdown\<close> when the session is closing already, and otherwise
  marks it closing and returns what closing the codec returns; the codec of
  \<^verbatim>\<open>rpc.NewClient(conn)\<close> closes the connection.
\<close>

definition rpc_Client_Close :: "env \<Rightarrow> session \<Rightarrow> world \<Rightarrow> error option \<times> world" where
  "rpc_Client_Close e rpcClient w =
     (if rpcClient \<in> closing w then (Some ErrShutdown, w)
      else (codec_Close e rpcClient, w\<lparr>closing := insert rpcClient (closing w)\<rparr>))"

text \<open>
  \<^verbatim>\<open>rpc.Client.Go\<close> of the Go standard library. It does its work (\<^verbatim>\<open>send\<close>) in the
  goroutine of its caller, under the request lock, before it returns. On a session
  that is closing it finds the flag, completes the call with \<^verbatim>\<open>ErrShutdown\<close> and
  writes nothing; the connection of such a session has been closed, so no other write
  holds the request lock, and \<^verbatim>\<open>Go\<close> returns at once. On a live session it writes the
  request to the connection, and returns when that is done: after \<open>go_returns\<close>
  nanoseconds, or never, when the write never finishes (a peer that has stopped
  reading, with the send buffers full). The result is \<open>Blocked\<close> then, and otherwise the
  time \<^verbatim>\<open>Go\<close> took and the call it returned. The call of \<^verbatim>\<open>Go\<close> is logged when it is
  made.
\<close>

definition rpc_Client_Go ::
  "env \<Rightarrow> session \<Rightarrow> string \<Rightarrow> payload \<Rightarrow> payload \<Rightarrow> world
     \<Rightarrow> (nat \<times> rpc_Call) blocking \<times> world" where
  "rpc_Client_Go e rpcClient serviceMethod args reply w =
     (let w1 = w\<lparr>goCalls := goCalls w @ [(rpcClient, serviceMethod, args)]\<rparr>
      in if rpcClient \<in> closing w
         then (Returned (0, \<lparr>ServiceMethod = serviceMethod, Args = args, Reply = reply,
                             Error = Some ErrShutdown, Done = Some 0\<rparr>), w1)
         else (case go_returns e rpcClient serviceMethod args of
                 None \<Rightarrow> (Blocked, w1)
               | Some k \<Rightarrow>
                   (Returned (k, \<lparr>ServiceMethod = serviceMethod, Args = args, Reply = reply,
                                  Error = call_Error e rpcClient serviceMethod args,
                                  Done = call_Done e rpcClient serviceMethod args\<rparr>), w1)))"

text \<open>
  \<^verbatim>\<open>Logger.Errorf\<close>. Calling it on a \<^verbatim>\<open>nil\<close> logger panics, which is \<open>None\<close>.
\<close>

definition Errorf :: "Logger option \<Rightarrow> string \<Rightarrow> world \<Rightarrow> world option" where
  "Errorf l msg w =
     (case l of
        None \<Rightarrow> None
      | Some lg \<Rightarrow> Some (w\<lparr>logged := logged w @ [(lg, msg)]\<rparr>))"

section \<open>The client\<close>

text \<open>
  The operations user code can call on a client. A heartbeat handler written by the
  user is the list of calls it makes on the client it is given, chosen from the probe's
  result, each with what the world does during it.
\<close>

datatype api =
  ApiReset
| ApiClose
| ApiCall ctx string payload payload
| ApiGo ctx string payload payload

datatype PingHandler =
  defaultHandler
| UserHandler "error option \<Rightarrow> (env \<times> api) list"

type_synonym CallInvoker =
  "ctx \<Rightarrow> string \<Rightarrow> payload \<Rightarrow> payload \<Rightarrow> world \<Rightarrow> error option blocking \<times> world"

type_synonym CallInterceptor =
  "ctx \<Rightarrow> string \<Rightarrow> payload \<Rightarrow> payload \<Rightarrow> CallInvoker \<Rightarrow> world
     \<Rightarrow> error option blocking \<times> world"

type_synonym GoInvoker =
  "ctx \<Rightarrow> string \<Rightarrow> payload \<Rightarrow> payload \<Rightarrow> world \<Rightarrow> rpc_Call blocking \<times> world"

type_synonym GoInterceptor =
  "ctx \<Rightarrow> string \<Rightarrow> payload \<Rightarrow> payload \<Rightarrow> GoInvoker \<Rightarrow> world
     \<Rightarrow> rpc_Call blocking \<times> world"

record dialOptions =
  network :: string
  address :: string
  timeout :: Duration
  block :: bool
  logger :: "Logger option"
  pingServiceMethod :: string
  pingInterval :: Duration
  pingHandler :: "PingHandler option"
  callInterceptor :: "CallInterceptor option"
  goInterceptor :: "GoInterceptor option"

record Client =
  client :: "session option"
  closeCanBeCalled :: bool
  closed :: bool
  dialOptions :: dialOptions

definition getClient :: "Client \<Rightarrow> session option" where
  "getClient c = client c"

definition setClient :: "Client \<Rightarrow> session option \<Rightarrow> Client" where
  "setClient c rpcClient = c\<lparr>client := rpcClient\<rparr>"

subsection \<open>Dial options\<close>

type_synonym DialOption = "dialOptions \<Rightarrow> dialOptions"

definition withNetworkAddress :: "string \<Rightarrow> string \<Rightarrow> DialOption" where
  "withNetworkAddress n a o' = o'\<lparr>network := n, address := a\<rparr>"

definition WithTimeout :: "Duration \<Rightarrow> DialOption" where
  "WithTimeout d o' = o'\<lparr>timeout := (if d \<le> 0 then 5 * Second else d)\<rparr>"

definition WithBlock :: DialOption where
  "WithBlock o' = o'\<lparr>block := True\<rparr>"

definition WithLogger :: "Logger option \<Rightarrow> DialOption" where
  "WithLogger l o' = (case l of None \<Rightarrow> o' | Some lg \<Rightarrow> o'\<lparr>logger := Some lg\<rparr>)"

definition WithHeartbeat :: "string \<Rightarrow> Duration \<Rightarrow> PingHandler option \<Rightarrow> DialOption" where
  "WithHeartbeat method interval handler o' =
     (if method = [] then o'
      else o'\<lparr>pingServiceMethod := method,
              pingInterval := (if interval \<le> 0 then 500 * Millisecond else interval),
              pingHandler := Some (case handler of None \<Rightarrow> defaultHandler | Some h \<Rightarrow> h)\<rparr>)"

definition WithCallInterceptor :: "CallInterceptor option \<Rightarrow> DialOption" where
  "WithCallInterceptor interceptor o' =
     (case interceptor of None \<Rightarrow> o' | Some i \<Rightarrow> o'\<lparr>callInterceptor := Some i\<rparr>)"

definition WithGoInterceptor :: "GoInterceptor option \<Rightarrow> DialOption" where
  "WithGoInterceptor interceptor o' =
     (case interceptor of None \<Rightarrow> o' | Some i \<Rightarrow> o'\<lparr>goInterceptor := Some i\<rparr>)"

text \<open>The zero value of \<^verbatim>\<open>dialOptions\<close>, which \<^verbatim>\<open>var client Client\<close> starts from.\<close>

definition zero_dialOptions :: dialOptions where
  "zero_dialOptions =
     \<lparr>network = [], address = [], timeout = 0, block = False, logger = None,
      pingServiceMethod = [], pingInterval = 0, pingHandler = None,
      callInterceptor = None, goInterceptor = None\<rparr>"

subsection \<open>Reset and Close\<close>

text \<open>The \<^verbatim>\<open>net.Dialer\<close> that \<^verbatim>\<open>Reset\<close> builds from the options.\<close>

definition new_Dialer :: "dialOptions \<Rightarrow> Dialer" where
  "new_Dialer opts =
     \<lparr>Timeout = timeout opts, KeepAlive = 30 * Second, DualStack = True\<rparr>"

text \<open>
  The second half of \<^verbatim>\<open>Reset\<close>: dial, and on success install the new session, for
  which \<^verbatim>\<open>rpc.NewClient\<close> hands out a fresh address. The dial attempt is logged with
  the dialer's settings.
\<close>

definition Reset_dial :: "env \<Rightarrow> Client \<times> world \<Rightarrow> error option \<times> (Client \<times> world)" where
  "Reset_dial e s =
     (case s of (c, w) \<Rightarrow>
        (case w\<lparr>dials := dials w @ [(new_Dialer (dialOptions c), network (dialOptions c),
                                       address (dialOptions c))]\<rparr> of w1 \<Rightarrow>
           (case dialer_Dial e of
              Some err \<Rightarrow> (Some err, (c, w1))
            | None \<Rightarrow>
                (None, (setClient (c\<lparr>closeCanBeCalled := True\<rparr>) (Some (nextSession w1)),
                        w1\<lparr>nextSession := Suc (nextSession w1)\<rparr>)))))"

definition Reset :: "env \<Rightarrow> Client \<times> world \<Rightarrow> error option \<times> (Client \<times> world)" where
  "Reset e s =
     (case s of (c, w) \<Rightarrow>
        if closed c then (Some ErrShutdown, (c, w))
        else
          (case getClient c of
             None \<Rightarrow> Reset_dial e (c, w)
           | Some rpcClient \<Rightarrow>
               (case rpc_Client_Close e rpcClient w of (err, w1) \<Rightarrow>
                  if err \<noteq> None \<and> err \<noteq> Some ErrShutdown
                  then (err, (c\<lparr>closeCanBeCalled := False\<rparr>, w1))
                  else Reset_dial e (c\<lparr>closeCanBeCalled := False\<rparr>, w1))))"

definition Close :: "env \<Rightarrow> Client \<times> world \<Rightarrow> error option \<times> (Client \<times> world)" where
  "Close e s =
     (case s of (c, w) \<Rightarrow>
        (case getClient c of
           None \<Rightarrow> (Some ErrShutdown, (c\<lparr>closed := True\<rparr>, w))
         | Some rpcClient \<Rightarrow>
             if \<not> closeCanBeCalled c
             then (None, (c\<lparr>closed := True, closeCanBeCalled := True\<rparr>, w))
             else (case rpc_Client_Close e rpcClient w of (err, w1) \<Rightarrow>
                     (err, (c\<lparr>closed := True\<rparr>, w1)))))"

definition RemoteAddress :: "Client \<Rightarrow> string" where
  "RemoteAddress c = address (dialOptions c)"

subsection \<open>The call dispatcher\<close>

text \<open>
  \<^verbatim>\<open>callContext\<close>. In both branches the call of \<^verbatim>\<open>rpcClient.Go\<close> is the operand of the
  receive, so it is made, and has to return, before anything is waited for: the
  \<^verbatim>\<open>select\<close> starts when \<^verbatim>\<open>Go\<close> has returned, and not at all when it does not.
\<close>

definition callContext ::
  "env \<Rightarrow> Client \<Rightarrow> ctx \<Rightarrow> string \<Rightarrow> payload \<Rightarrow> payload \<Rightarrow> world
     \<Rightarrow> error option blocking \<times> world" where
  "callContext e c ctx' serviceMethod args reply w =
     (case getClient c of
        None \<Rightarrow> (Returned (Some ErrShutdown), w)
      | Some rpcClient \<Rightarrow>
          (case rpc_Client_Go e rpcClient serviceMethod args reply w of
             (Blocked, w1) \<Rightarrow> (Blocked, w1)
           | (Returned (k, call), w1) \<Rightarrow>
               if ctx' = Background
               then (case Done call of
                       None \<Rightarrow> (Blocked, w1)
                     | Some t \<Rightarrow> (Returned (Error call), w1))
               else (case select2 (pick e) (Done call) (ctx_Done_after k ctx') of
                       Blocked \<Rightarrow> (Blocked, w1)
                     | Returned FirstCase \<Rightarrow> (Returned (Error call), w1)
                     | Returned SecondCase \<Rightarrow> (Returned (ctx_Err ctx'), w1))))"

definition CallContext ::
  "env \<Rightarrow> Client \<Rightarrow> ctx \<Rightarrow> string \<Rightarrow> payload \<Rightarrow> payload \<Rightarrow> world
     \<Rightarrow> error option blocking \<times> world" where
  "CallContext e c ctx' serviceMethod args reply w =
     (case callInterceptor (dialOptions c) of
        Some interceptor \<Rightarrow>
          interceptor (peer_NewContext ctx' (address (dialOptions c))) serviceMethod args reply
            (callContext e c) w
      | None \<Rightarrow> callContext e c ctx' serviceMethod args reply w)"

definition Call ::
  "env \<Rightarrow> Client \<Rightarrow> string \<Rightarrow> payload \<Rightarrow> payload \<Rightarrow> world
     \<Rightarrow> error option blocking \<times> world" where
  "Call e c serviceMethod args reply w =
     CallContext e c Background serviceMethod args reply w"

text \<open>
  The synthetic call of \<^verbatim>\<open>goContext\<close>: its error is set and it is on its own
  \<^verbatim>\<open>Done\<close> channel already.
\<close>

definition completed_Call :: "string \<Rightarrow> payload \<Rightarrow> payload \<Rightarrow> error option \<Rightarrow> rpc_Call" where
  "completed_Call serviceMethod args reply err =
     \<lparr>ServiceMethod = serviceMethod, Args = args, Reply = reply, Error = err,
      Done = Some 0\<rparr>"

text \<open>
  \<^verbatim>\<open>goContext\<close>. With the background token \<^verbatim>\<open>Go\<close> is called in place. With another
  token it is called in a goroutine of its own, which gets to the call after
  \<open>delegation e\<close> nanoseconds and puts the call \<^verbatim>\<open>Go\<close> returns on the channel
  \<^verbatim>\<open>done\<close>; \<open>handed_over\<close> is when, if ever.
\<close>

definition handed_over :: "env \<Rightarrow> (nat \<times> rpc_Call) blocking \<Rightarrow> nat option" where
  "handed_over e g =
     (case g of Blocked \<Rightarrow> None | Returned (k, call) \<Rightarrow> Some (delegation e + k))"

definition goContext ::
  "env \<Rightarrow> Client \<Rightarrow> ctx \<Rightarrow> string \<Rightarrow> payload \<Rightarrow> payload \<Rightarrow> world
     \<Rightarrow> rpc_Call blocking \<times> world" where
  "goContext e c ctx' serviceMethod args reply w =
     (case getClient c of
        None \<Rightarrow> (Returned (completed_Call serviceMethod args reply (Some ErrShutdown)), w)
      | Some rpcClient \<Rightarrow>
          (case rpc_Client_Go e rpcClient serviceMethod args reply w of (g, w1) \<Rightarrow>
             if ctx' = Background
             then (case g of
                     Blocked \<Rightarrow> (Blocked, w1)
                   | Returned (k, call) \<Rightarrow> (Returned call, w1))
             else (case select2 (pick e) (handed_over e g) (ctx_Done ctx') of
                     Blocked \<Rightarrow> (Blocked, w1)
                   | Returned FirstCase \<Rightarrow>
                       (case g of
                          Blocked \<Rightarrow> (Blocked, w1)
                        | Returned (k, call) \<Rightarrow> (Returned call, w1))
                   | Returned SecondCase \<Rightarrow>
                       (Returned (completed_Call serviceMethod args reply (ctx_Err ctx')),
                        w1))))"

definition GoContext ::
  "env \<Rightarrow> Client \<Rightarrow> ctx \<Rightarrow> string \<Rightarrow> payload \<Rightarrow> payload \<Rightarrow> world
     \<Rightarrow> rpc_Call blocking \<times> world" where
  "GoContext e c ctx' serviceMethod args reply w =
     (case goInterceptor (dialOptions c) of
        Some interceptor \<Rightarrow>
          interceptor (peer_NewContext ctx' (address (dialOptions c))) serviceMethod args reply
            (goContext e c) w
      | None \<Rightarrow> goContext e c ctx' serviceMethod args reply w)"

definition Go ::
  "env \<Rightarrow> Client \<Rightarrow> string \<Rightarrow> payload \<Rightarrow> payload \<Rightarrow> world
     \<Rightarrow> rpc_Call blocking \<times> world" where
  "Go e c serviceMethod args reply w =
     GoContext e c Background serviceMethod args reply w"

subsection \<open>The heartbeat monitor\<close>

definition ping :: "env \<Rightarrow> Client \<Rightarrow> world \<Rightarrow> error option blocking \<times> world" where
  "ping e c w =
     callContext e c (context_WithTimeout (3 * Second))
       (pingServiceMethod (dialOptions c)) EmptyStruct EmptyStruct w"

text \<open>
  \<^verbatim>\<open>defaultPingHandler\<close>. The result is \<open>None\<close> when it panics, which it does when it
  has to log and the client has no logger.
\<close>

definition defaultPingHandler ::
  "env \<Rightarrow> error option \<Rightarrow> Client \<times> world \<Rightarrow> (Client \<times> world) option" where
  "defaultPingHandler e result s =
     (case s of (c, w) \<Rightarrow>
        (case result of
           None \<Rightarrow> Some (c, w)
         | Some r \<Rightarrow>
             if r \<noteq> ErrShutdown
             then map_option (Pair c)
                    (Errorf (logger (dialOptions c))
                       (''[error][rpcx]: ping: '' @ error_text r) w)
             else (case Reset e (c, w) of
                     (None, s1) \<Rightarrow> Some s1
                   | (Some err, (c1, w1)) \<Rightarrow>
                       map_option (Pair c1)
                         (Errorf (logger (dialOptions c1))
                            (''[error][rpcx]: Reset: '' @ error_text err) w1))))"

text \<open>
  One call of user code on the client, and several in a row. A call made through an
  interceptor reaches the client as the calls the interceptor makes of the invoker it
  is given, which is \<^verbatim>\<open>callContext\<close> or \<^verbatim>\<open>goContext\<close>; so calls are taken at the
  dispatcher.
\<close>

fun exec_api :: "env \<Rightarrow> api \<Rightarrow> Client \<times> world \<Rightarrow> Client \<times> world" where
  "exec_api e ApiReset s = snd (Reset e s)"
| "exec_api e ApiClose s = snd (Close e s)"
| "exec_api e (ApiCall ctx' m a r) s = (fst s, snd (callContext e (fst s) ctx' m a r (snd s)))"
| "exec_api e (ApiGo ctx' m a r) s = (fst s, snd (goContext e (fst s) ctx' m a r (snd s)))"

fun run_api :: "(env \<times> api) list \<Rightarrow> Client \<times> world \<Rightarrow> Client \<times> world" where
  "run_api [] s = s"
| "run_api ((e, a) # calls) s = run_api calls (exec_api e a s)"

text \<open>
  The call \<^verbatim>\<open>pingHandler(err, client)\<close> of the monitor; \<open>None\<close> is a panic (a
  \<^verbatim>\<open>nil\<close> handler, or the default handler's).
\<close>

definition call_pingHandler ::
  "env \<Rightarrow> error option \<Rightarrow> Client \<times> world \<Rightarrow> (Client \<times> world) option" where
  "call_pingHandler e err s =
     (case pingHandler (dialOptions (fst s)) of
        None \<Rightarrow> None
      | Some defaultHandler \<Rightarrow> defaultPingHandler e err s
      | Some (UserHandler h) \<Rightarrow> Some (run_api (h err) s))"

text \<open>
  One iteration of the loop of \<^verbatim>\<open>monitor\<close>, run when the ticker fires: the monitor
  has returned (\<open>Stopped\<close>), goes on to wait for the next tick in a new state
  (\<open>Continue\<close>), waits forever inside the probe (\<open>Stuck\<close>) or has panicked
  (\<open>Panicked\<close>).
\<close>

datatype tick = Stopped | Continue "Client \<times> world" | Stuck | Panicked

text \<open>
  The iteration after the lock is given up: the probe, then the handler. It does not
  read \<^verbatim>\<open>closed\<close> again.
\<close>

definition monitor_body :: "env \<Rightarrow> Client \<times> world \<Rightarrow> tick" where
  "monitor_body e s =
     (case s of (c, w) \<Rightarrow>
        (case ping e c w of
           (Blocked, w1) \<Rightarrow> Stuck
         | (Returned err, w1) \<Rightarrow>
             (case call_pingHandler e err (c, w1) of
                None \<Rightarrow> Panicked
              | Some s1 \<Rightarrow> Continue s1)))"

definition monitor_tick :: "env \<Rightarrow> Client \<times> world \<Rightarrow> tick" where
  "monitor_tick e s = (if closed (fst s) then Stopped else monitor_body e s)"

text \<open>
  The loop over the ticks that arrive, each with what the world does during it, while
  no other goroutine touches the client. \<open>Continue s\<close> at the end of the list: the
  monitor is still running, in state \<open>s\<close>.
\<close>

fun monitor :: "env list \<Rightarrow> Client \<times> world \<Rightarrow> tick" where
  "monitor [] s = Continue s"
| "monitor (e # es) s =
     (case monitor_tick e s of
        Continue s1 \<Rightarrow> monitor es s1
      | Stopped \<Rightarrow> Stopped
      | Stuck \<Rightarrow> Stuck
      | Panicked \<Rightarrow> Panicked)"

subsection \<open>Dial\<close>

text \<open>
  The goroutines \<^verbatim>\<open>Dial\<close> starts: the first \<^verbatim>\<open>Reset\<close> of a client dialled without
  \<^verbatim>\<open>WithBlock\<close>, and the monitor.
\<close>

datatype task = ResetTask | MonitorTask

definition Dial ::
  "string \<Rightarrow> string \<Rightarrow> DialOption list \<Rightarrow> env \<Rightarrow> world
     \<Rightarrow> (error + Client \<times> task list) \<times> world" where
  "Dial network' address' opts e w =
     (case foldl (\<lambda>o' opt. opt o') zero_dialOptions
             (opts @ [withNetworkAddress network' address']) of o1 \<Rightarrow>
      case (if logger o1 = None then WithLogger (Some defaultLogger) o1 else o1) of o2 \<Rightarrow>
      case \<lparr>client = None, closeCanBeCalled = True, closed = False, dialOptions = o2\<rparr> of c \<Rightarrow>
      case (if pingServiceMethod o2 \<noteq> [] \<and> 0 < pingInterval o2 then [MonitorTask] else [])
        of mon \<Rightarrow>
      if block o2
      then (case Reset e (c, w) of
              (Some err, (c1, w1)) \<Rightarrow> (Inl err, w1)
            | (None, (c1, w1)) \<Rightarrow> (Inr (c1, mon), w1))
      else (Inr (c, ResetTask # mon), w))"

text \<open>The body of the goroutine of a non-blocking \<^verbatim>\<open>Dial\<close>; \<open>None\<close> is a panic.\<close>

definition initial_Reset :: "env \<Rightarrow> Client \<times> world \<Rightarrow> (Client \<times> world) option" where
  "initial_Reset e s =
     (case Reset e s of
        (None, s1) \<Rightarrow> Some s1
      | (Some err, (c1, w1)) \<Rightarrow>
          map_option (Pair c1)
            (Errorf (logger (dialOptions c1))
               (''[error][rpcx]: Reset: '' @ error_text err) w1))"

subsection \<open>Runs\<close>

text \<open>
  Everything that can happen to a client after \<^verbatim>\<open>Dial\<close> has returned it: a call of
  user code, the first \<^verbatim>\<open>Reset\<close> of a non-blocking dial, a tick of the monitor. The
  lock makes \<^verbatim>\<open>Reset\<close> and \<^verbatim>\<open>Close\<close> atomic, and the other functions write nothing
  of the client, so an execution is a sequence of these steps. The monitor gives up the
  lock after it has read \<^verbatim>\<open>closed\<close>, so other steps can come between that and its
  probe, and between the probe and the handler: \<open>Probe\<close> and \<open>Handle\<close> are these two
  parts of a tick on their own. A tick that never returns from its probe has made
  its call of \<^verbatim>\<open>Go\<close>. After a panic the program is gone; the step then leaves the
  state as it was.
\<close>

datatype operation = Api api | InitialReset | Tick | Probe | Handle "error option"

fun exec :: "env \<Rightarrow> operation \<Rightarrow> Client \<times> world \<Rightarrow> Client \<times> world" where
  "exec e (Api a) s = exec_api e a s"
| "exec e InitialReset s = (case initial_Reset e s of None \<Rightarrow> s | Some s1 \<Rightarrow> s1)"
| "exec e Tick s =
     (case monitor_tick e s of
        Continue s1 \<Rightarrow> s1
      | Stuck \<Rightarrow> (fst s, snd (ping e (fst s) (snd s)))
      | Stopped \<Rightarrow> s
      | Panicked \<Rightarrow> s)"
| "exec e Probe s = (fst s, snd (ping e (fst s) (snd s)))"
| "exec e (Handle err) s = (case call_pingHandler e err s of None \<Rightarrow> s | Some s1 \<Rightarrow> s1)"

fun run :: "(env \<times> operation) list \<Rightarrow> Client \<times> world \<Rightarrow> Client \<times> world" where
  "run [] s = s"
| "run ((e, p) # ops) s = run ops (exec e p s)"

section \<open>Invariants and example inputs\<close>

text \<open>
  \<open>close_attempted\<close>: the session the client holds, if it holds one, has had
  \<^verbatim>\<open>Close\<close> called on it. \<open>closePermission_inv\<close>: that is so whenever
  \<^verbatim>\<open>closeCanBeCalled\<close> is false. \<open>lifecycle_inv\<close>: and whenever the client is closed.
\<close>

definition close_attempted :: "Client \<times> world \<Rightarrow> bool" where
  "close_attempted s =
     (case getClient (fst s) of None \<Rightarrow> True | Some x \<Rightarrow> x \<in> closing (snd s))"

definition closePermission_inv :: "Client \<times> world \<Rightarrow> bool" where
  "closePermission_inv s = (\<not> closeCanBeCalled (fst s) \<longrightarrow> close_attempted s)"

definition lifecycle_inv :: "Client \<times> world \<Rightarrow> bool" where
  "lifecycle_inv s = (closePermission_inv s \<and> (closed (fst s) \<longrightarrow> close_attempted s))"

text \<open>
  \<open>Reset_dials e s\<close>: \<^verbatim>\<open>Reset\<close> gets as far as the dial, that is, the client is not
  closed and closing the session it holds, if any, returns \<^verbatim>\<open>nil\<close> or
  \<^verbatim>\<open>ErrShutdown\<close>.
\<close>

definition Reset_dials :: "env \<Rightarrow> Client \<times> world \<Rightarrow> bool" where
  "Reset_dials e s =
     (\<not> closed (fst s) \<and>
      (case getClient (fst s) of
         None \<Rightarrow> True
       | Some x \<Rightarrow> fst (rpc_Client_Close e x (snd s)) \<in> {None, Some ErrShutdown}))"

text \<open>
  \<open>shut s\<close>: the client is closed and its session, if any, is too. \<open>frozen s s1\<close>:
  \<open>s1\<close> is closed and has the session, the options, the closed sessions, the sessions
  created and the dial attempts of \<open>s\<close>.
\<close>

definition shut :: "Client \<times> world \<Rightarrow> bool" where
  "shut s = (closed (fst s) \<and> close_attempted s)"

definition frozen :: "Client \<times> world \<Rightarrow> Client \<times> world \<Rightarrow> bool" where
  "frozen s s1 =
     (closed (fst s1) \<and> getClient (fst s1) = getClient (fst s) \<and>
      dialOptions (fst s1) = dialOptions (fst s) \<and>
      closing (snd s1) = closing (snd s) \<and> nextSession (snd s1) = nextSession (snd s) \<and>
      dials (snd s1) = dials (snd s))"

text \<open>
  Inputs for the examples: a world in which nothing has happened yet, a server that
  accepts connections, takes requests at once and answers every call after 5
  nanoseconds, the same server refusing connections, the same server no longer
  reading from a connection whose buffers are full, the client that
  \<^verbatim>\<open>Dial("tcp", "h:1", WithBlock(), WithHeartbeat("Health.Ping", 0, nil))\<close> returns
  against the first, and the world after that dial.
\<close>

definition new_world :: world where
  "new_world = \<lparr>closing = {}, nextSession = 0, dials = [], goCalls = [], logged = []\<rparr>"

definition env_up :: env where
  "env_up =
     \<lparr>codec_Close = (\<lambda>x. None), dialer_Dial = None, go_returns = (\<lambda>x m a. Some 0),
      call_Done = (\<lambda>x m a. Some 5), call_Error = (\<lambda>x m a. None), delegation = 1,
      pick = True\<rparr>"

definition env_refused :: env where
  "env_refused = env_up\<lparr>dialer_Dial := Some (ErrOther ''connection refused'')\<rparr>"

definition env_stalled :: env where
  "env_stalled = env_up\<lparr>go_returns := (\<lambda>x m a. None), call_Done := (\<lambda>x m a. None)\<rparr>"

definition tcp_options :: dialOptions where
  "tcp_options =
     \<lparr>network = ''tcp'', address = ''h:1'', timeout = 0, block = True,
      logger = Some defaultLogger, pingServiceMethod = ''Health.Ping'',
      pingInterval = 500000000, pingHandler = Some defaultHandler,
      callInterceptor = None, goInterceptor = None\<rparr>"

definition tcp_client :: Client where
  "tcp_client =
     \<lparr>client = Some 0, closeCanBeCalled = True, closed = False, dialOptions = tcp_options\<rparr>"

definition tcp_world :: world where
  "tcp_world =
     \<lparr>closing = {}, nextSession = 1,
      dials = [(\<lparr>Timeout = 0, KeepAlive = 30000000000, DualStack = True\<rparr>, ''tcp'', ''h:1'')],
      goCalls = [], logged = []\<rparr>"

text \<open>
  A run of that client: a reconnect that finds the server refusing, then
  \<^verbatim>\<open>Close\<close>; and what follows it: a reconnect, a tick of the monitor, and the
  handler of a tick that had started before the close.
\<close>

definition before_close :: "Client \<times> world" where
  "before_close = run [(env_refused, Api ApiReset)] (tcp_client, tcp_world)"

definition after_close :: "Client \<times> world" where
  "after_close = snd (Close env_up before_close)"

definition later_on :: "Client \<times> world" where
  "later_on =
     run [(env_up, Api ApiReset), (env_up, Tick), (env_up, Handle (Some ErrShutdown))]
       after_close"

text \<open>
  Two interceptors that answer every call themselves, with success, the client that
  \<^verbatim>\<open>Dial\<close> with the options of the example and these interceptors returns, and that
  client closed.
\<close>

definition short_circuit :: CallInterceptor where
  "short_circuit t m a r invoker w = (Returned None, w)"

definition short_circuit_go :: GoInterceptor where
  "short_circuit_go t m a r invoker w = (Returned (completed_Call m a r None), w)"

definition intercepted_client :: Client where
  "intercepted_client =
     tcp_client\<lparr>dialOptions :=
       tcp_options\<lparr>callInterceptor := Some short_circuit,
         goInterceptor := Some short_circuit_go\<rparr>\<rparr>"

definition intercepted_closed :: "Client \<times> world" where
  "intercepted_closed = snd (Close env_up (run [] (intercepted_client, tcp_world)))"

text \<open>
  The client of the example with no heartbeat handler, and with a handler of the
  user's that closes the client.
\<close>

definition no_handler_client :: Client where
  "no_handler_client = tcp_client\<lparr>dialOptions := tcp_options\<lparr>pingHandler := None\<rparr>\<rparr>"

definition closing_handler_client :: Client where
  "closing_handler_client =
     tcp_client\<lparr>dialOptions :=
       tcp_options\<lparr>pingHandler := Some (UserHandler (\<lambda>err. [(env_up, ApiClose)]))\<rparr>\<rparr>"

section \<open>Lemmas about the operations\<close>

subsection \<open>What the dispatcher and the logger change\<close>

lemma rpc_Client_Go_world:
  "snd (rpc_Client_Go e x m a r w) = w\<lparr>goCalls := goCalls w @ [(x, m, a)]\<rparr>"
  by (simp add: rpc_Client_Go_def Let_def split: option.splits)

lemma callContext_world:
  "snd (callContext e c t m a r w) =
     w\<lparr>goCalls := goCalls w @ (case getClient c of None \<Rightarrow> [] | Some x \<Rightarrow> [(x, m, a)])\<rparr>"
proof (cases "getClient c")
  case None
  then show ?thesis by (simp add: callContext_def)
next
  case (Some x)
  obtain g w1 where g: "rpc_Client_Go e x m a r w = (g, w1)"
    by (cases "rpc_Client_Go e x m a r w")
  then have "w1 = w\<lparr>goCalls := goCalls w @ [(x, m, a)]\<rparr>"
    using rpc_Client_Go_world [of e x m a r w] by simp
  with Some g show ?thesis
    by (simp add: callContext_def
        split: option.splits blocking.splits select_case.splits prod.splits)
qed

lemma goContext_world:
  "snd (goContext e c t m a r w) =
     w\<lparr>goCalls := goCalls w @ (case getClient c of None \<Rightarrow> [] | Some x \<Rightarrow> [(x, m, a)])\<rparr>"
proof (cases "getClient c")
  case None
  then show ?thesis by (simp add: goContext_def)
next
  case (Some x)
  obtain g w1 where g: "rpc_Client_Go e x m a r w = (g, w1)"
    by (cases "rpc_Client_Go e x m a r w")
  then have "w1 = w\<lparr>goCalls := goCalls w @ [(x, m, a)]\<rparr>"
    using rpc_Client_Go_world [of e x m a r w] by simp
  with Some g show ?thesis
    by (simp add: goContext_def
        split: option.splits blocking.splits select_case.splits prod.splits)
qed

lemma ping_world:
  "snd (ping e c w) =
     w\<lparr>goCalls := goCalls w @
        (case getClient c of
           None \<Rightarrow> []
         | Some x \<Rightarrow> [(x, pingServiceMethod (dialOptions c), EmptyStruct)])\<rparr>"
  by (simp add: ping_def callContext_world)

lemma Errorf_Some:
  "Errorf l msg w = Some w1 \<Longrightarrow>
     \<exists>lg. l = Some lg \<and> w1 = w\<lparr>logged := logged w @ [(lg, msg)]\<rparr>"
  by (auto simp add: Errorf_def split: option.splits)

lemma close_attempted_goCalls [simp]:
  "close_attempted (c, w\<lparr>goCalls := g\<rparr>) = close_attempted (c, w)"
  by (simp add: close_attempted_def split: option.splits)

lemma close_attempted_logged [simp]:
  "close_attempted (c, w\<lparr>logged := l\<rparr>) = close_attempted (c, w)"
  by (simp add: close_attempted_def split: option.splits)

lemma closePermission_inv_goCalls [simp]:
  "closePermission_inv (c, w\<lparr>goCalls := g\<rparr>) = closePermission_inv (c, w)"
  by (simp add: closePermission_inv_def)

lemma closePermission_inv_logged [simp]:
  "closePermission_inv (c, w\<lparr>logged := l\<rparr>) = closePermission_inv (c, w)"
  by (simp add: closePermission_inv_def)

lemma lifecycle_inv_goCalls [simp]:
  "lifecycle_inv (c, w\<lparr>goCalls := g\<rparr>) = lifecycle_inv (c, w)"
  by (simp add: lifecycle_inv_def)

lemma lifecycle_inv_logged [simp]:
  "lifecycle_inv (c, w\<lparr>logged := l\<rparr>) = lifecycle_inv (c, w)"
  by (simp add: lifecycle_inv_def)

subsection \<open>Reset and Close keep the invariants\<close>

lemma Reset_closed: "closed (fst s) \<Longrightarrow> Reset e s = (Some ErrShutdown, s)"
  by (cases s) (simp add: Reset_def)

lemma Reset_dialOptions: "dialOptions (fst (snd (Reset e s))) = dialOptions (fst s)"
  by (cases s)
     (simp add: Reset_def Reset_dial_def rpc_Client_Close_def getClient_def setClient_def
        split: option.splits)

lemma Reset_closePermission:
  "closePermission_inv s \<Longrightarrow> closePermission_inv (snd (Reset e s))"
  by (cases s)
     (auto simp add: closePermission_inv_def close_attempted_def Reset_def Reset_dial_def
        rpc_Client_Close_def getClient_def setClient_def split: option.splits)

lemma Reset_lifecycle: "lifecycle_inv s \<Longrightarrow> lifecycle_inv (snd (Reset e s))"
  by (cases s)
     (auto simp add: lifecycle_inv_def closePermission_inv_def close_attempted_def Reset_def
        Reset_dial_def rpc_Client_Close_def getClient_def setClient_def split: option.splits)

lemma Close_closePermission:
  "closePermission_inv s \<Longrightarrow> closePermission_inv (snd (Close e s))"
  by (cases s)
     (auto simp add: closePermission_inv_def close_attempted_def Close_def
        rpc_Client_Close_def getClient_def split: option.splits)

lemma Close_lifecycle: "lifecycle_inv s \<Longrightarrow> lifecycle_inv (snd (Close e s))"
  by (cases s)
     (auto simp add: lifecycle_inv_def closePermission_inv_def close_attempted_def Close_def
        rpc_Client_Close_def getClient_def split: option.splits)

lemma Close_makes_shut: "closePermission_inv s \<Longrightarrow> shut (snd (Close e s))"
  by (cases s)
     (auto simp add: shut_def closePermission_inv_def close_attempted_def Close_def
        rpc_Client_Close_def getClient_def split: option.splits)

subsection \<open>Every step keeps the invariants\<close>

lemma exec_api_closePermission:
  "closePermission_inv s \<Longrightarrow> closePermission_inv (exec_api e a s)"
  by (cases a; cases s)
     (simp_all add: Reset_closePermission Close_closePermission callContext_world
        goContext_world)

lemma exec_api_lifecycle: "lifecycle_inv s \<Longrightarrow> lifecycle_inv (exec_api e a s)"
  by (cases a; cases s)
     (simp_all add: Reset_lifecycle Close_lifecycle callContext_world goContext_world)

lemma run_api_closePermission:
  "closePermission_inv s \<Longrightarrow> closePermission_inv (run_api calls s)"
  by (induction calls s rule: run_api.induct) (simp_all add: exec_api_closePermission)

lemma run_api_lifecycle: "lifecycle_inv s \<Longrightarrow> lifecycle_inv (run_api calls s)"
  by (induction calls s rule: run_api.induct) (simp_all add: exec_api_lifecycle)

lemma defaultPingHandler_closePermission:
  assumes "closePermission_inv s" and "defaultPingHandler e r s = Some s1"
  shows "closePermission_inv s1"
proof -
  have "closePermission_inv (snd (Reset e s))"
    using assms(1) by (rule Reset_closePermission)
  with assms show ?thesis
    by (cases s)
       (auto simp add: defaultPingHandler_def split: prod.splits option.splits if_splits
          dest!: Errorf_Some)
qed

lemma defaultPingHandler_lifecycle:
  assumes "lifecycle_inv s" and "defaultPingHandler e r s = Some s1"
  shows "lifecycle_inv s1"
proof -
  have "lifecycle_inv (snd (Reset e s))"
    using assms(1) by (rule Reset_lifecycle)
  with assms show ?thesis
    by (cases s)
       (auto simp add: defaultPingHandler_def split: prod.splits option.splits if_splits
          dest!: Errorf_Some)
qed

lemma call_pingHandler_closePermission:
  assumes "closePermission_inv s" and "call_pingHandler e err s = Some s1"
  shows "closePermission_inv s1"
proof (cases "pingHandler (dialOptions (fst s))")
  case None
  with assms(2) show ?thesis by (simp add: call_pingHandler_def)
next
  case (Some h)
  show ?thesis
  proof (cases h)
    case defaultHandler
    with assms(2) Some have "defaultPingHandler e err s = Some s1"
      by (simp add: call_pingHandler_def)
    with assms(1) show ?thesis by (rule defaultPingHandler_closePermission)
  next
    case (UserHandler f)
    with assms(2) Some have "s1 = run_api (f err) s"
      by (simp add: call_pingHandler_def)
    with assms(1) show ?thesis by (simp add: run_api_closePermission)
  qed
qed

lemma call_pingHandler_lifecycle:
  assumes "lifecycle_inv s" and "call_pingHandler e err s = Some s1"
  shows "lifecycle_inv s1"
proof (cases "pingHandler (dialOptions (fst s))")
  case None
  with assms(2) show ?thesis by (simp add: call_pingHandler_def)
next
  case (Some h)
  show ?thesis
  proof (cases h)
    case defaultHandler
    with assms(2) Some have "defaultPingHandler e err s = Some s1"
      by (simp add: call_pingHandler_def)
    with assms(1) show ?thesis by (rule defaultPingHandler_lifecycle)
  next
    case (UserHandler f)
    with assms(2) Some have "s1 = run_api (f err) s"
      by (simp add: call_pingHandler_def)
    with assms(1) show ?thesis by (simp add: run_api_lifecycle)
  qed
qed

lemma monitor_body_Continue:
  assumes "monitor_body e (c, w) = Continue s1"
  shows "\<exists>err. call_pingHandler e err (c, snd (ping e c w)) = Some s1"
  using assms
  by (auto simp add: monitor_body_def
      split: if_splits prod.splits blocking.splits option.splits)

lemma monitor_tick_Continue:
  assumes "monitor_tick e (c, w) = Continue s1"
  shows "\<exists>err. call_pingHandler e err (c, snd (ping e c w)) = Some s1"
  using assms monitor_body_Continue
  by (simp add: monitor_tick_def split: if_splits)

lemma monitor_tick_closePermission:
  assumes "closePermission_inv s" and "monitor_tick e s = Continue s1"
  shows "closePermission_inv s1"
proof (cases s)
  case (Pair c w)
  from assms(2) Pair obtain err where
    h: "call_pingHandler e err (c, snd (ping e c w)) = Some s1"
    using monitor_tick_Continue by blast
  have "closePermission_inv (c, snd (ping e c w))"
    using assms(1) Pair by (simp add: ping_world)
  then show ?thesis using h by (rule call_pingHandler_closePermission)
qed

lemma monitor_tick_lifecycle:
  assumes "lifecycle_inv s" and "monitor_tick e s = Continue s1"
  shows "lifecycle_inv s1"
proof (cases s)
  case (Pair c w)
  from assms(2) Pair obtain err where
    h: "call_pingHandler e err (c, snd (ping e c w)) = Some s1"
    using monitor_tick_Continue by blast
  have "lifecycle_inv (c, snd (ping e c w))"
    using assms(1) Pair by (simp add: ping_world)
  then show ?thesis using h by (rule call_pingHandler_lifecycle)
qed

lemma initial_Reset_closePermission:
  assumes "closePermission_inv s" and "initial_Reset e s = Some s1"
  shows "closePermission_inv s1"
proof -
  have "closePermission_inv (snd (Reset e s))"
    using assms(1) by (rule Reset_closePermission)
  with assms(2) show ?thesis
    by (auto simp add: initial_Reset_def split: prod.splits option.splits dest!: Errorf_Some)
qed

lemma initial_Reset_lifecycle:
  assumes "lifecycle_inv s" and "initial_Reset e s = Some s1"
  shows "lifecycle_inv s1"
proof -
  have "lifecycle_inv (snd (Reset e s))"
    using assms(1) by (rule Reset_lifecycle)
  with assms(2) show ?thesis
    by (auto simp add: initial_Reset_def split: prod.splits option.splits dest!: Errorf_Some)
qed

lemma exec_closePermission: "closePermission_inv s \<Longrightarrow> closePermission_inv (exec e p s)"
proof (cases p)
  case Probe
  assume "closePermission_inv s"
  then show ?thesis using Probe by (cases s) (simp add: ping_world)
next
  case Tick
  assume a: "closePermission_inv s"
  then have "closePermission_inv (fst s, snd (ping e (fst s) (snd s)))"
    by (cases s) (simp add: ping_world)
  with a show ?thesis using Tick
    by (auto split: tick.splits intro: monitor_tick_closePermission)
qed (auto simp add: exec_api_closePermission split: option.splits
      intro: initial_Reset_closePermission call_pingHandler_closePermission)

lemma exec_lifecycle: "lifecycle_inv s \<Longrightarrow> lifecycle_inv (exec e p s)"
proof (cases p)
  case Probe
  assume "lifecycle_inv s"
  then show ?thesis using Probe by (cases s) (simp add: ping_world)
next
  case Tick
  assume a: "lifecycle_inv s"
  then have "lifecycle_inv (fst s, snd (ping e (fst s) (snd s)))"
    by (cases s) (simp add: ping_world)
  with a show ?thesis using Tick
    by (auto split: tick.splits intro: monitor_tick_lifecycle)
qed (auto simp add: exec_api_lifecycle split: option.splits
      intro: initial_Reset_lifecycle call_pingHandler_lifecycle)

lemma run_closePermission: "closePermission_inv s \<Longrightarrow> closePermission_inv (run ops s)"
  by (induction ops s rule: run.induct) (simp_all add: exec_closePermission)

lemma run_lifecycle: "lifecycle_inv s \<Longrightarrow> lifecycle_inv (run ops s)"
  by (induction ops s rule: run.induct) (simp_all add: exec_lifecycle)

lemma Dial_lifecycle:
  assumes "Dial n a opts e w = (Inr (c, ts), w1)"
  shows "lifecycle_inv (c, w1)"
  using assms
  by (auto simp add: Dial_def Reset_def Reset_dial_def lifecycle_inv_def
      closePermission_inv_def close_attempted_def getClient_def setClient_def
      split: if_splits option.splits prod.splits)

subsection \<open>A closed client stays as it is\<close>

lemma frozen_refl: "closed (fst s) \<Longrightarrow> frozen s s"
  by (simp add: frozen_def)

lemma frozen_trans: "frozen s s1 \<Longrightarrow> frozen s1 s2 \<Longrightarrow> frozen s s2"
  by (simp add: frozen_def)

lemma frozen_shut: "shut s \<Longrightarrow> frozen s s1 \<Longrightarrow> shut s1"
  by (simp add: frozen_def shut_def close_attempted_def split: option.splits)

lemma Close_shut: "shut s \<Longrightarrow> frozen s (snd (Close e s))"
  by (cases s)
     (auto simp add: frozen_def shut_def close_attempted_def Close_def rpc_Client_Close_def
        getClient_def split: option.splits)

lemma Close_shut_result:
  "shut s \<Longrightarrow> fst (Close e s) = Some ErrShutdown \<or> fst (Close e s) = None"
  by (cases s)
     (auto simp add: shut_def close_attempted_def Close_def rpc_Client_Close_def
        getClient_def split: option.splits)

lemma exec_api_shut: "shut s \<Longrightarrow> frozen s (exec_api e a s)"
proof (cases a)
  case ApiReset
  assume "shut s"
  then show ?thesis using ApiReset by (simp add: shut_def Reset_closed frozen_def)
next
  case ApiClose
  assume "shut s"
  then show ?thesis using ApiClose by (simp add: Close_shut)
next
  case (ApiCall t m x r)
  assume "shut s"
  then show ?thesis using ApiCall by (simp add: shut_def frozen_def callContext_world)
next
  case (ApiGo t m x r)
  assume "shut s"
  then show ?thesis using ApiGo by (simp add: shut_def frozen_def goContext_world)
qed

lemma run_api_shut: "shut s \<Longrightarrow> frozen s (run_api calls s)"
proof (induction calls s rule: run_api.induct)
  case (1 s)
  then show ?case by (simp add: shut_def frozen_refl)
next
  case (2 e a calls s)
  have st: "frozen s (exec_api e a s)" using "2.prems" by (rule exec_api_shut)
  then have "shut (exec_api e a s)" using "2.prems" frozen_shut by blast
  then have "frozen (exec_api e a s) (run_api calls (exec_api e a s))" by (rule "2.IH")
  with st show ?case by (simp add: frozen_trans [of s "exec_api e a s"])
qed

lemma monitor_tick_closed: "closed (fst s) \<Longrightarrow> monitor_tick e s = Stopped"
  by (simp add: monitor_tick_def)

lemma defaultPingHandler_shut:
  assumes "shut s" and "defaultPingHandler e err s = Some s1"
  shows "frozen s s1"
  using assms
  by (cases s)
     (auto simp add: defaultPingHandler_def shut_def frozen_def Reset_closed
        split: option.splits if_splits dest!: Errorf_Some)

lemma call_pingHandler_shut:
  assumes "shut s" and "call_pingHandler e err s = Some s1"
  shows "frozen s s1"
proof (cases "pingHandler (dialOptions (fst s))")
  case None
  with assms(2) show ?thesis by (simp add: call_pingHandler_def)
next
  case (Some h)
  show ?thesis
  proof (cases h)
    case defaultHandler
    with assms(2) Some have "defaultPingHandler e err s = Some s1"
      by (simp add: call_pingHandler_def)
    with assms(1) show ?thesis by (rule defaultPingHandler_shut)
  next
    case (UserHandler f)
    with assms(2) Some have "s1 = run_api (f err) s"
      by (simp add: call_pingHandler_def)
    with assms(1) show ?thesis by (simp add: run_api_shut)
  qed
qed

lemma exec_shut: "shut s \<Longrightarrow> frozen s (exec e p s)"
proof (cases p)
  case (Api a)
  assume "shut s"
  then show ?thesis using Api by (simp add: exec_api_shut)
next
  case InitialReset
  assume "shut s"
  then show ?thesis using InitialReset
    by (cases s)
       (auto simp add: shut_def initial_Reset_def Reset_closed frozen_def Errorf_def
          split: option.splits)
next
  case Tick
  assume "shut s"
  then show ?thesis using Tick by (simp add: shut_def monitor_tick_closed frozen_def)
next
  case Probe
  assume "shut s"
  then show ?thesis using Probe by (simp add: shut_def frozen_def ping_world)
next
  case (Handle err)
  assume a: "shut s"
  show ?thesis
  proof (cases "call_pingHandler e err s")
    case None
    then show ?thesis using a Handle by (simp add: shut_def frozen_refl)
  next
    case (Some s1)
    then show ?thesis using a Handle call_pingHandler_shut by simp
  qed
qed

lemma run_shut: "shut s \<Longrightarrow> frozen s (run ops s)"
proof (induction ops s rule: run.induct)
  case (1 s)
  then show ?case by (simp add: shut_def frozen_refl)
next
  case (2 e p ops s)
  have st: "frozen s (exec e p s)" using "2.prems" by (rule exec_shut)
  then have "shut (exec e p s)" using "2.prems" frozen_shut by blast
  then have "frozen (exec e p s) (run ops (exec e p s))" by (rule "2.IH")
  with st show ?case by (simp add: frozen_trans [of s "exec e p s"])
qed

lemma rpc_Client_Go_closing:
  "x \<in> closing w \<Longrightarrow>
     fst (rpc_Client_Go e x m a r w) = Returned (0, completed_Call m a r (Some ErrShutdown))"
  by (simp add: rpc_Client_Go_def completed_Call_def Let_def)

lemma ctx_Done_after_0 [simp]: "ctx_Done_after 0 t = ctx_Done t"
  by (cases "ctx_Done t") (simp_all add: ctx_Done_after_def)

lemma callContext_shut_session:
  assumes "getClient c = Some y" and "y \<in> closing w"
  shows "fst (callContext e c t m x r w) =
           (if t = Background then Returned (Some ErrShutdown)
            else case select2 (pick e) (Some 0) (ctx_Done t) of
                   Blocked \<Rightarrow> Blocked
                 | Returned FirstCase \<Rightarrow> Returned (Some ErrShutdown)
                 | Returned SecondCase \<Rightarrow> Returned (ctx_Err t))"
proof -
  obtain g w1 where g: "rpc_Client_Go e y m x r w = (g, w1)"
    by (cases "rpc_Client_Go e y m x r w")
  with assms(2) have "g = Returned (0, completed_Call m x r (Some ErrShutdown))"
    using rpc_Client_Go_closing [of y w e m x r] by simp
  with g assms(1) show ?thesis
    by (simp add: callContext_def completed_Call_def
        split: blocking.splits select_case.splits)
qed

lemma callContext_shut:
  assumes "shut (c, w)" and "ctx_Done t \<noteq> Some 0"
  shows "fst (callContext e c t m x r w) = Returned (Some ErrShutdown)"
proof (cases "getClient c")
  case None
  then show ?thesis by (simp add: callContext_def)
next
  case (Some y)
  with assms(1) have "y \<in> closing w"
    by (simp add: shut_def close_attempted_def)
  with Some assms(2) show ?thesis
    by (cases "ctx_Done t") (simp_all add: callContext_shut_session select2_def)
qed

lemma callContext_shut_any:
  assumes "shut (c, w)"
  shows "fst (callContext e c t m x r w) = Returned (Some ErrShutdown) \<or>
         ctx_Done t = Some 0 \<and> getClient c \<noteq> None \<and>
         fst (callContext e c t m x r w) = Returned (ctx_Err t)"
proof (cases "ctx_Done t = Some 0")
  case False
  with assms show ?thesis by (simp add: callContext_shut)
next
  case True
  show ?thesis
  proof (cases "getClient c")
    case None
    then show ?thesis by (simp add: callContext_def)
  next
    case (Some y)
    with assms have "y \<in> closing w"
      by (simp add: shut_def close_attempted_def)
    with Some True show ?thesis
      by (simp add: callContext_shut_session select2_def)
  qed
qed

lemma goContext_shut_session:
  assumes "getClient c = Some y" and "y \<in> closing w"
  shows "fst (goContext e c t m x r w) =
           (if t = Background then Returned (completed_Call m x r (Some ErrShutdown))
            else case select2 (pick e) (Some (delegation e)) (ctx_Done t) of
                   Blocked \<Rightarrow> Blocked
                 | Returned FirstCase \<Rightarrow> Returned (completed_Call m x r (Some ErrShutdown))
                 | Returned SecondCase \<Rightarrow> Returned (completed_Call m x r (ctx_Err t)))"
proof -
  obtain g w1 where g: "rpc_Client_Go e y m x r w = (g, w1)"
    by (cases "rpc_Client_Go e y m x r w")
  with assms(2) have "g = Returned (0, completed_Call m x r (Some ErrShutdown))"
    using rpc_Client_Go_closing [of y w e m x r] by simp
  with g assms(1) show ?thesis
    by (simp add: goContext_def handed_over_def
        split: blocking.splits select_case.splits)
qed

lemma goContext_shut:
  assumes "shut (c, w)" and "\<forall>d. ctx_Done t = Some d \<longrightarrow> delegation e < d"
  shows "fst (goContext e c t m x r w) = Returned (completed_Call m x r (Some ErrShutdown))"
proof (cases "getClient c")
  case None
  then show ?thesis by (simp add: goContext_def)
next
  case (Some y)
  with assms(1) have "y \<in> closing w"
    by (simp add: shut_def close_attempted_def)
  with Some assms(2) show ?thesis
    by (cases "ctx_Done t") (simp_all add: goContext_shut_session select2_def)
qed

lemma goContext_shut_any:
  assumes "shut (c, w)"
  shows "fst (goContext e c t m x r w) = Returned (completed_Call m x r (Some ErrShutdown)) \<or>
         (\<exists>d. ctx_Done t = Some d \<and> d \<le> delegation e) \<and> getClient c \<noteq> None \<and>
         fst (goContext e c t m x r w) = Returned (completed_Call m x r (ctx_Err t))"
proof (cases "getClient c")
  case None
  then show ?thesis by (simp add: goContext_def)
next
  case (Some y)
  with assms have "y \<in> closing w"
    by (simp add: shut_def close_attempted_def)
  with Some show ?thesis
    by (cases "ctx_Done t") (auto simp add: goContext_shut_session select2_def)
qed

subsection \<open>The example dial\<close>

lemma Dial_tcp:
  "Dial ''tcp'' ''h:1'' [WithBlock, WithHeartbeat ''Health.Ping'' 0 None] env_up new_world =
     (Inr (tcp_client, [MonitorTask]), tcp_world)"
  by (simp add: Dial_def zero_dialOptions_def WithBlock_def WithHeartbeat_def
      withNetworkAddress_def WithLogger_def Reset_def Reset_dial_def new_Dialer_def
      getClient_def setClient_def env_up_def new_world_def tcp_client_def tcp_options_def
      tcp_world_def Second_def Millisecond_def)

lemma Dial_intercepted:
  "Dial ''tcp'' ''h:1''
     [WithBlock, WithHeartbeat ''Health.Ping'' 0 None, WithCallInterceptor (Some short_circuit),
      WithGoInterceptor (Some short_circuit_go)]
     env_up new_world =
     (Inr (intercepted_client, [MonitorTask]), tcp_world)"
  by (simp add: Dial_def zero_dialOptions_def WithBlock_def WithHeartbeat_def
      WithCallInterceptor_def WithGoInterceptor_def withNetworkAddress_def WithLogger_def
      Reset_def Reset_dial_def new_Dialer_def getClient_def setClient_def env_up_def
      new_world_def intercepted_client_def tcp_client_def tcp_options_def tcp_world_def
      Second_def Millisecond_def)

lemmas example_defs =
  env_up_def env_refused_def tcp_client_def tcp_options_def tcp_world_def new_world_def

lemmas operation_defs =
  Reset_def Reset_dial_def Close_def rpc_Client_Close_def rpc_Client_Go_def new_Dialer_def
  getClient_def setClient_def Errorf_def Second_def Millisecond_def

lemma before_close_value:
  "before_close =
     (tcp_client\<lparr>closeCanBeCalled := False\<rparr>,
      tcp_world\<lparr>closing := {0},
        dials := [(\<lparr>Timeout = 0, KeepAlive = 30000000000, DualStack = True\<rparr>, ''tcp'', ''h:1''),
                  (\<lparr>Timeout = 0, KeepAlive = 30000000000, DualStack = True\<rparr>, ''tcp'', ''h:1'')]\<rparr>)"
  by (simp add: before_close_def example_defs operation_defs)

lemma after_close_value:
  "after_close =
     (tcp_client\<lparr>closed := True, closeCanBeCalled := True\<rparr>,
      tcp_world\<lparr>closing := {0},
        dials := [(\<lparr>Timeout = 0, KeepAlive = 30000000000, DualStack = True\<rparr>, ''tcp'', ''h:1''),
                  (\<lparr>Timeout = 0, KeepAlive = 30000000000, DualStack = True\<rparr>, ''tcp'', ''h:1'')]\<rparr>)"
  by (simp add: after_close_def before_close_value example_defs operation_defs)

lemma later_on_value:
  "later_on =
     (fst after_close,
      (snd after_close)\<lparr>logged :=
         [(defaultLogger, ''[error][rpcx]: Reset: connection is shut down'')]\<rparr>)"
  by (simp add: later_on_def after_close_value example_defs operation_defs
      monitor_tick_def call_pingHandler_def defaultPingHandler_def)

section \<open>The claims\<close>

subsection \<open>C1: a closed client stays closed\<close>

text \<open>
  C1, as stated, fails in its last part. On the client of the example, closed after a
  reconnect that failed, a call whose token has fired already finds two cases of its
  \<^verbatim>\<open>select\<close> ready, the completed call of the closed session and the token, and
  returns the token's error when the \<^verbatim>\<open>select\<close> picks that one. And a call of a
  client dialled with interceptors that answer by themselves returns, after
  \<^verbatim>\<open>Close\<close>, what the interceptor answers.
\<close>

theorem call_after_close_counterexample:
  "Dial ''tcp'' ''h:1'' [WithBlock, WithHeartbeat ''Health.Ping'' 0 None] env_up new_world =
     (Inr (tcp_client, [MonitorTask]), tcp_world) \<and>
   after_close =
     snd (Close env_up (run [(env_refused, Api ApiReset)] (tcp_client, tcp_world))) \<and>
   closed (fst after_close) \<and>
   callInterceptor (dialOptions (fst after_close)) = None \<and>
   fst (CallContext (env_up\<lparr>pick := False\<rparr>) (fst after_close) (Token (Some (0, Canceled)))
          ''Arith.Add'' (Value ''1 2'') EmptyStruct (snd after_close)) =
     Returned (Some Canceled) \<and>
   fst (CallContext (env_up\<lparr>pick := False\<rparr>) (fst after_close) (Token (Some (0, Canceled)))
          ''Arith.Add'' (Value ''1 2'') EmptyStruct (snd after_close)) \<noteq>
     Returned (Some ErrShutdown) \<and>
   Dial ''tcp'' ''h:1''
     [WithBlock, WithHeartbeat ''Health.Ping'' 0 None, WithCallInterceptor (Some short_circuit),
      WithGoInterceptor (Some short_circuit_go)]
     env_up new_world =
     (Inr (intercepted_client, [MonitorTask]), tcp_world) \<and>
   closed (fst (snd (Close env_up (intercepted_client, tcp_world)))) \<and>
   fst (Call env_up (fst (snd (Close env_up (intercepted_client, tcp_world)))) ''Arith.Add''
          (Value ''1 2'') EmptyStruct (snd (snd (Close env_up (intercepted_client, tcp_world))))) =
     Returned None"
proof -
  have a: "after_close =
      snd (Close env_up (run [(env_refused, Api ApiReset)] (tcp_client, tcp_world)))"
    by (simp only: after_close_def before_close_def)
  have c: "fst (CallContext (env_up\<lparr>pick := False\<rparr>) (fst after_close)
             (Token (Some (0, Canceled))) ''Arith.Add'' (Value ''1 2'') EmptyStruct
             (snd after_close)) = Returned (Some Canceled)"
    by (simp add: after_close_value CallContext_def callContext_def rpc_Client_Go_def
        select2_def ctx_Done_after_def ctx_Done_def ctx_Err_def getClient_def example_defs)
  have k: "closed (fst (snd (Close env_up (intercepted_client, tcp_world))))"
    "fst (Call env_up (fst (snd (Close env_up (intercepted_client, tcp_world)))) ''Arith.Add''
       (Value ''1 2'') EmptyStruct (snd (snd (Close env_up (intercepted_client, tcp_world))))) =
     Returned None"
    by (simp_all add: Close_def rpc_Client_Close_def getClient_def Call_def CallContext_def
        short_circuit_def intercepted_client_def tcp_client_def tcp_options_def tcp_world_def
        env_up_def)
  have cl: "closed (fst after_close)"
    "callInterceptor (dialOptions (fst after_close)) = None"
    by (simp_all add: after_close_value tcp_client_def tcp_options_def)
  have ne: "fst (CallContext (env_up\<lparr>pick := False\<rparr>) (fst after_close)
              (Token (Some (0, Canceled))) ''Arith.Add'' (Value ''1 2'') EmptyStruct
              (snd after_close)) \<noteq> Returned (Some ErrShutdown)"
    by (simp add: c)
  show ?thesis
    by (intro conjI) (rule Dial_tcp a cl c ne Dial_intercepted k)+
qed

text \<open>
  C1, amended. Take a client that \<^verbatim>\<open>Dial\<close> returned, any steps \<open>before\<close>, a \<^verbatim>\<open>Close\<close>
  that has returned (state \<open>s1\<close>) and any steps \<open>after\<close> (state \<open>s2\<close>). Then
  \<^verbatim>\<open>closed\<close> is true in \<open>s1\<close> and still in \<open>s2\<close>; no session has been created and no
  dial attempted between the two, and the client holds the session reference it held;
  \<^verbatim>\<open>Reset\<close> in \<open>s2\<close> returns \<^verbatim>\<open>ErrShutdown\<close> and changes nothing. A call at the
  dispatcher returns: with a token that has not fired yet, or with none,
  \<^verbatim>\<open>ErrShutdown\<close>; with a token that has fired, \<^verbatim>\<open>ErrShutdown\<close> or, when a session
  reference is held, the token's error. An asynchronous call at the dispatcher returns
  a call that is complete already: with a token that fires after the hand-over or
  never, or with none, it carries \<^verbatim>\<open>ErrShutdown\<close>; with a token that fires earlier or
  at the same time, \<^verbatim>\<open>ErrShutdown\<close> or, when a session reference is held, the token's
  error. The entry points of a client without the interceptor are the dispatcher, so
  \<^verbatim>\<open>Call\<close> and \<^verbatim>\<open>Go\<close> return \<^verbatim>\<open>ErrShutdown\<close>; with an interceptor they return what
  the interceptor returns.
\<close>

theorem closed_is_permanent:
  assumes dial: "Dial n a opts e0 w0 = (Inr (c, ts), w1)"
    and close: "s1 = snd (Close e1 (run before (c, w1)))"
    and later: "s2 = run after s1"
  shows "closed (fst s1) \<and> closed (fst s2) \<and>
         getClient (fst s2) = getClient (fst s1) \<and>
         nextSession (snd s2) = nextSession (snd s1) \<and>
         dials (snd s2) = dials (snd s1) \<and>
         Reset e s2 = (Some ErrShutdown, s2) \<and>
         (ctx_Done t \<noteq> Some 0 \<longrightarrow>
            fst (callContext e (fst s2) t m x r (snd s2)) = Returned (Some ErrShutdown)) \<and>
         (fst (callContext e (fst s2) t m x r (snd s2)) = Returned (Some ErrShutdown) \<or>
          ctx_Done t = Some 0 \<and> getClient (fst s2) \<noteq> None \<and>
          fst (callContext e (fst s2) t m x r (snd s2)) = Returned (ctx_Err t)) \<and>
         ((\<forall>d. ctx_Done t = Some d \<longrightarrow> delegation e < d) \<longrightarrow>
            fst (goContext e (fst s2) t m x r (snd s2)) =
              Returned \<lparr>ServiceMethod = m, Args = x, Reply = r, Error = Some ErrShutdown,
                        Done = Some 0\<rparr>) \<and>
         (fst (goContext e (fst s2) t m x r (snd s2)) =
            Returned \<lparr>ServiceMethod = m, Args = x, Reply = r, Error = Some ErrShutdown,
                      Done = Some 0\<rparr> \<or>
          (\<exists>d. ctx_Done t = Some d \<and> d \<le> delegation e) \<and> getClient (fst s2) \<noteq> None \<and>
          fst (goContext e (fst s2) t m x r (snd s2)) =
            Returned \<lparr>ServiceMethod = m, Args = x, Reply = r, Error = ctx_Err t,
                      Done = Some 0\<rparr>) \<and>
         (callInterceptor (dialOptions (fst s2)) = None \<longrightarrow>
            CallContext e (fst s2) t m x r (snd s2) = callContext e (fst s2) t m x r (snd s2) \<and>
            fst (Call e (fst s2) m x r (snd s2)) = Returned (Some ErrShutdown)) \<and>
         (goInterceptor (dialOptions (fst s2)) = None \<longrightarrow>
            GoContext e (fst s2) t m x r (snd s2) = goContext e (fst s2) t m x r (snd s2) \<and>
            fst (Go e (fst s2) m x r (snd s2)) =
              Returned \<lparr>ServiceMethod = m, Args = x, Reply = r, Error = Some ErrShutdown,
                        Done = Some 0\<rparr>) \<and>
         (callInterceptor (dialOptions (fst s2)) = Some i \<longrightarrow>
            CallContext e (fst s2) t m x r (snd s2) =
              i (peer_NewContext t (address (dialOptions (fst s2)))) m x r
                (callContext e (fst s2)) (snd s2)) \<and>
         (goInterceptor (dialOptions (fst s2)) = Some j \<longrightarrow>
            GoContext e (fst s2) t m x r (snd s2) =
              j (peer_NewContext t (address (dialOptions (fst s2)))) m x r
                (goContext e (fst s2)) (snd s2))"
proof -
  have "lifecycle_inv (run before (c, w1))"
    using dial by (simp add: Dial_lifecycle run_lifecycle)
  then have "closePermission_inv (run before (c, w1))"
    by (simp add: lifecycle_inv_def)
  then have s1: "shut s1"
    unfolding close by (rule Close_makes_shut)
  then have fr: "frozen s1 s2"
    unfolding later by (rule run_shut)
  with s1 have s2: "shut s2" by (rule frozen_shut)
  then have s2': "shut (fst s2, snd s2)" by simp
  have bg: "ctx_Done Background \<noteq> Some 0" "\<forall>d. ctx_Done Background = Some d \<longrightarrow> delegation e < d"
    by (simp_all add: ctx_Done_def)
  have state: "closed (fst s1) \<and> closed (fst s2) \<and>
         getClient (fst s2) = getClient (fst s1) \<and>
         nextSession (snd s2) = nextSession (snd s1) \<and>
         dials (snd s2) = dials (snd s1)"
    using s1 fr by (simp add: shut_def frozen_def)
  have reset: "Reset e s2 = (Some ErrShutdown, s2)"
    using s2 by (simp add: shut_def Reset_closed)
  have call: "ctx_Done t \<noteq> Some 0 \<longrightarrow>
      fst (callContext e (fst s2) t m x r (snd s2)) = Returned (Some ErrShutdown)"
    using callContext_shut [OF s2'] by simp
  have call_any: "fst (callContext e (fst s2) t m x r (snd s2)) = Returned (Some ErrShutdown) \<or>
      ctx_Done t = Some 0 \<and> getClient (fst s2) \<noteq> None \<and>
      fst (callContext e (fst s2) t m x r (snd s2)) = Returned (ctx_Err t)"
    using s2' by (rule callContext_shut_any)
  have go: "(\<forall>d. ctx_Done t = Some d \<longrightarrow> delegation e < d) \<longrightarrow>
      fst (goContext e (fst s2) t m x r (snd s2)) =
        Returned \<lparr>ServiceMethod = m, Args = x, Reply = r, Error = Some ErrShutdown,
                  Done = Some 0\<rparr>"
    using goContext_shut [OF s2'] by (simp add: completed_Call_def)
  have go_any: "fst (goContext e (fst s2) t m x r (snd s2)) =
        Returned \<lparr>ServiceMethod = m, Args = x, Reply = r, Error = Some ErrShutdown,
                  Done = Some 0\<rparr> \<or>
      (\<exists>d. ctx_Done t = Some d \<and> d \<le> delegation e) \<and> getClient (fst s2) \<noteq> None \<and>
      fst (goContext e (fst s2) t m x r (snd s2)) =
        Returned \<lparr>ServiceMethod = m, Args = x, Reply = r, Error = ctx_Err t, Done = Some 0\<rparr>"
    using goContext_shut_any [OF s2', of e t m x r] by (simp add: completed_Call_def)
  have sync: "callInterceptor (dialOptions (fst s2)) = None \<longrightarrow>
      CallContext e (fst s2) t m x r (snd s2) = callContext e (fst s2) t m x r (snd s2) \<and>
      fst (Call e (fst s2) m x r (snd s2)) = Returned (Some ErrShutdown)"
    using callContext_shut [OF s2' bg(1)] by (simp add: Call_def CallContext_def)
  have async: "goInterceptor (dialOptions (fst s2)) = None \<longrightarrow>
      GoContext e (fst s2) t m x r (snd s2) = goContext e (fst s2) t m x r (snd s2) \<and>
      fst (Go e (fst s2) m x r (snd s2)) =
        Returned \<lparr>ServiceMethod = m, Args = x, Reply = r, Error = Some ErrShutdown,
                  Done = Some 0\<rparr>"
    using goContext_shut [OF s2' bg(2)] by (simp add: Go_def GoContext_def completed_Call_def)
  have ic: "callInterceptor (dialOptions (fst s2)) = Some i \<longrightarrow>
      CallContext e (fst s2) t m x r (snd s2) =
        i (peer_NewContext t (address (dialOptions (fst s2)))) m x r
          (callContext e (fst s2)) (snd s2)"
    by (simp add: CallContext_def)
  have ig: "goInterceptor (dialOptions (fst s2)) = Some j \<longrightarrow>
      GoContext e (fst s2) t m x r (snd s2) =
        j (peer_NewContext t (address (dialOptions (fst s2)))) m x r
          (goContext e (fst s2)) (snd s2)"
    by (simp add: GoContext_def)
  from state reset call call_any go go_any sync async ic ig show ?thesis
    by (intro conjI) (erule conjunct1 conjunct2 | assumption | simp)+
qed

theorem closed_is_permanent_witness:
  "Dial ''tcp'' ''h:1'' [WithBlock, WithHeartbeat ''Health.Ping'' 0 None] env_up new_world =
     (Inr (tcp_client, [MonitorTask]), tcp_world) \<and>
   closed (fst after_close) \<and> closed (fst later_on) \<and>
   getClient (fst later_on) = Some 0 \<and>
   nextSession (snd later_on) = 1 \<and>
   dials (snd later_on) = dials (snd after_close) \<and>
   Reset env_up later_on = (Some ErrShutdown, later_on) \<and>
   ctx_Done (Token (Some (7, Canceled))) \<noteq> Some 0 \<and>
   fst (callContext env_up (fst later_on) (Token (Some (7, Canceled))) ''Arith.Add''
          (Value ''1 2'') EmptyStruct (snd later_on)) = Returned (Some ErrShutdown) \<and>
   delegation env_up < 7 \<and>
   fst (goContext env_up (fst later_on) (Token (Some (7, Canceled))) ''Arith.Add''
          (Value ''1 2'') EmptyStruct (snd later_on)) =
     Returned \<lparr>ServiceMethod = ''Arith.Add'', Args = Value ''1 2'', Reply = EmptyStruct,
               Error = Some ErrShutdown, Done = Some 0\<rparr> \<and>
   callInterceptor (dialOptions (fst later_on)) = None \<and>
   fst (Call env_up (fst later_on) ''Arith.Add'' (Value ''1 2'') EmptyStruct (snd later_on)) =
     Returned (Some ErrShutdown) \<and>
   goInterceptor (dialOptions (fst later_on)) = None \<and>
   fst (Go env_up (fst later_on) ''Arith.Add'' (Value ''1 2'') EmptyStruct (snd later_on)) =
     Returned \<lparr>ServiceMethod = ''Arith.Add'', Args = Value ''1 2'', Reply = EmptyStruct,
               Error = Some ErrShutdown, Done = Some 0\<rparr> \<and>
   Dial ''tcp'' ''h:1''
     [WithBlock, WithHeartbeat ''Health.Ping'' 0 None, WithCallInterceptor (Some short_circuit),
      WithGoInterceptor (Some short_circuit_go)]
     env_up new_world =
     (Inr (intercepted_client, [MonitorTask]), tcp_world) \<and>
   closed (fst intercepted_closed) \<and>
   callInterceptor (dialOptions (fst intercepted_closed)) = Some short_circuit \<and>
   CallContext env_up (fst intercepted_closed) Background ''Arith.Add'' (Value ''1 2'')
     EmptyStruct (snd intercepted_closed) = (Returned None, snd intercepted_closed) \<and>
   goInterceptor (dialOptions (fst intercepted_closed)) = Some short_circuit_go \<and>
   GoContext env_up (fst intercepted_closed) Background ''Arith.Add'' (Value ''1 2'')
     EmptyStruct (snd intercepted_closed) =
     (Returned \<lparr>ServiceMethod = ''Arith.Add'', Args = Value ''1 2'', Reply = EmptyStruct,
                Error = None, Done = Some 0\<rparr>, snd intercepted_closed)"
proof -
  have t: "ctx_Done (Token (Some (7, Canceled))) \<noteq> Some 0"
    "\<forall>d. ctx_Done (Token (Some (7, Canceled))) = Some d \<longrightarrow> delegation env_up < d"
    "delegation env_up < 7"
    by (simp_all add: ctx_Done_def env_up_def)
  have i: "callInterceptor (dialOptions (fst later_on)) = None"
    "goInterceptor (dialOptions (fst later_on)) = None"
    by (simp_all add: later_on_value after_close_value tcp_client_def tcp_options_def)
  have g: "getClient (fst after_close) = Some 0" "nextSession (snd after_close) = 1"
    by (simp_all add: after_close_value getClient_def tcp_client_def tcp_world_def)
  note T = closed_is_permanent [OF Dial_tcp after_close_def [unfolded before_close_def]
      later_on_def, where e = env_up and t = "Token (Some (7, Canceled))"
      and m = "''Arith.Add''" and x = "Value ''1 2''" and r = EmptyStruct]
  from T have s: "closed (fst after_close)" "closed (fst later_on)"
    "getClient (fst later_on) = getClient (fst after_close)"
    "nextSession (snd later_on) = nextSession (snd after_close)"
    "dials (snd later_on) = dials (snd after_close)"
    "Reset env_up later_on = (Some ErrShutdown, later_on)"
    by blast+
  from T t(1) have c: "fst (callContext env_up (fst later_on) (Token (Some (7, Canceled)))
      ''Arith.Add'' (Value ''1 2'') EmptyStruct (snd later_on)) = Returned (Some ErrShutdown)"
    by blast
  from T t(2) have a: "fst (goContext env_up (fst later_on) (Token (Some (7, Canceled)))
      ''Arith.Add'' (Value ''1 2'') EmptyStruct (snd later_on)) =
      Returned \<lparr>ServiceMethod = ''Arith.Add'', Args = Value ''1 2'', Reply = EmptyStruct,
                Error = Some ErrShutdown, Done = Some 0\<rparr>"
    by blast
  from T i(1) have k: "fst (Call env_up (fst later_on) ''Arith.Add'' (Value ''1 2'')
      EmptyStruct (snd later_on)) = Returned (Some ErrShutdown)"
    by blast
  from T i(2) have l: "fst (Go env_up (fst later_on) ''Arith.Add'' (Value ''1 2'')
      EmptyStruct (snd later_on)) =
      Returned \<lparr>ServiceMethod = ''Arith.Add'', Args = Value ''1 2'', Reply = EmptyStruct,
                Error = Some ErrShutdown, Done = Some 0\<rparr>"
    by blast
  from s(3,4) g have g': "getClient (fst later_on) = Some 0" "nextSession (snd later_on) = 1"
    by simp_all
  have ii: "callInterceptor (dialOptions (fst intercepted_closed)) = Some short_circuit"
    "goInterceptor (dialOptions (fst intercepted_closed)) = Some short_circuit_go"
    by (simp_all add: intercepted_closed_def Close_def rpc_Client_Close_def getClient_def
        intercepted_client_def tcp_client_def tcp_options_def tcp_world_def)
  have r0: "intercepted_closed = run [] intercepted_closed"
    by simp
  note I = closed_is_permanent [OF Dial_intercepted intercepted_closed_def r0,
      where e = env_up and t = Background and m = "''Arith.Add''" and x = "Value ''1 2''"
      and r = EmptyStruct and i = short_circuit and j = short_circuit_go]
  from I have ic: "closed (fst intercepted_closed)"
    by blast
  from I ii(1) have "CallContext env_up (fst intercepted_closed) Background ''Arith.Add''
      (Value ''1 2'') EmptyStruct (snd intercepted_closed) =
      short_circuit (peer_NewContext Background (address (dialOptions (fst intercepted_closed))))
        ''Arith.Add'' (Value ''1 2'') EmptyStruct (callContext env_up (fst intercepted_closed))
        (snd intercepted_closed)"
    by blast
  then have cc: "CallContext env_up (fst intercepted_closed) Background ''Arith.Add''
      (Value ''1 2'') EmptyStruct (snd intercepted_closed) = (Returned None, snd intercepted_closed)"
    by (simp add: short_circuit_def)
  from I ii(2) have "GoContext env_up (fst intercepted_closed) Background ''Arith.Add''
      (Value ''1 2'') EmptyStruct (snd intercepted_closed) =
      short_circuit_go
        (peer_NewContext Background (address (dialOptions (fst intercepted_closed))))
        ''Arith.Add'' (Value ''1 2'') EmptyStruct (goContext env_up (fst intercepted_closed))
        (snd intercepted_closed)"
    by blast
  then have gc: "GoContext env_up (fst intercepted_closed) Background ''Arith.Add''
      (Value ''1 2'') EmptyStruct (snd intercepted_closed) =
      (Returned \<lparr>ServiceMethod = ''Arith.Add'', Args = Value ''1 2'', Reply = EmptyStruct,
                 Error = None, Done = Some 0\<rparr>, snd intercepted_closed)"
    by (simp add: short_circuit_go_def completed_Call_def)
  show ?thesis
    by (intro conjI) (rule Dial_tcp s g' t c a i k l Dial_intercepted ic ii cc gc)+
qed

subsection \<open>C2: a reconnect whose dial fails\<close>

text \<open>
  C2, as stated, fails: when the client holds a session, a \<^verbatim>\<open>Reset\<close> whose dial is
  refused returns the dial error and the client still holds the old session
  reference, which \<^verbatim>\<open>getClient\<close> then reads.
\<close>

theorem Reset_dial_failure_keeps_session:
  "Reset_dials env_refused (tcp_client, tcp_world) \<and>
   dialer_Dial env_refused = Some (ErrOther ''connection refused'') \<and>
   fst (Reset env_refused (tcp_client, tcp_world)) = Some (ErrOther ''connection refused'') \<and>
   getClient (fst (snd (Reset env_refused (tcp_client, tcp_world)))) = Some 0 \<and>
   getClient (fst (snd (Reset env_refused (tcp_client, tcp_world)))) \<noteq> None"
  by (simp add: Reset_dials_def example_defs operation_defs)

text \<open>
  C2, amended. When \<^verbatim>\<open>Reset\<close> gets as far as the dial and the dial fails, it returns
  the dial error and the session reference is what it was: a client that held no
  session is unchanged and holds none, and a client that held a session still holds
  that one, which is closing by then, with \<^verbatim>\<open>closeCanBeCalled\<close> false.
\<close>

theorem Reset_dial_failure:
  assumes "Reset_dials e (c, w)" and "dialer_Dial e = Some err"
  shows "fst (Reset e (c, w)) = Some err \<and>
         getClient (fst (snd (Reset e (c, w)))) = getClient c \<and>
         closed (fst (snd (Reset e (c, w)))) = closed c \<and>
         (getClient c = None \<longrightarrow> fst (snd (Reset e (c, w))) = c) \<and>
         (\<forall>x. getClient c = Some x \<longrightarrow>
            \<not> closeCanBeCalled (fst (snd (Reset e (c, w)))) \<and>
            x \<in> closing (snd (snd (Reset e (c, w)))))"
  using assms
  by (auto simp add: Reset_dials_def Reset_def Reset_dial_def rpc_Client_Close_def
      getClient_def setClient_def split: option.splits if_splits)

theorem Reset_dial_failure_witness:
  "Reset_dials env_refused (tcp_client, tcp_world) \<and>
   dialer_Dial env_refused = Some (ErrOther ''connection refused'') \<and>
   fst (Reset env_refused (tcp_client, tcp_world)) = Some (ErrOther ''connection refused'') \<and>
   getClient (fst (snd (Reset env_refused (tcp_client, tcp_world)))) = getClient tcp_client \<and>
   getClient tcp_client = Some 0 \<and>
   \<not> closeCanBeCalled (fst (snd (Reset env_refused (tcp_client, tcp_world)))) \<and>
   0 \<in> closing (snd (snd (Reset env_refused (tcp_client, tcp_world))))"
proof -
  have a: "Reset_dials env_refused (tcp_client, tcp_world)"
    by (simp add: Reset_dials_def example_defs operation_defs)
  have b: "dialer_Dial env_refused = Some (ErrOther ''connection refused'')"
    by (simp add: env_refused_def)
  have g: "getClient tcp_client = Some 0"
    by (simp add: getClient_def tcp_client_def)
  show ?thesis
    using Reset_dial_failure [OF a b] a b g by simp
qed

subsection \<open>C3: Close\<close>

text \<open>
  C3. \<^verbatim>\<open>Close\<close> always sets \<^verbatim>\<open>closed\<close>. With no session held it returns
  \<^verbatim>\<open>ErrShutdown\<close>. With a session held and the close permission consumed
  (\<^verbatim>\<open>closeCanBeCalled\<close> false) it sets the permission again and returns \<^verbatim>\<open>nil\<close>, and
  the world is untouched: the session is not closed again. Otherwise it returns what
  \<^verbatim>\<open>Close\<close> of the session returns. And for a client that \<^verbatim>\<open>Dial\<close> returned, a
  \<^verbatim>\<open>Close\<close> that comes after an earlier \<^verbatim>\<open>Close\<close>, whatever happened before and in
  between, returns \<^verbatim>\<open>ErrShutdown\<close> or \<^verbatim>\<open>nil\<close>.
\<close>

theorem Close_cases:
  "closed (fst (snd (Close e (c, w)))) \<and>
   (getClient c = None \<longrightarrow> Close e (c, w) = (Some ErrShutdown, (c\<lparr>closed := True\<rparr>, w))) \<and>
   (getClient c = Some x \<longrightarrow> \<not> closeCanBeCalled c \<longrightarrow>
      Close e (c, w) = (None, (c\<lparr>closed := True, closeCanBeCalled := True\<rparr>, w))) \<and>
   (getClient c = Some x \<longrightarrow> closeCanBeCalled c \<longrightarrow>
      Close e (c, w) =
        (fst (rpc_Client_Close e x w), (c\<lparr>closed := True\<rparr>, snd (rpc_Client_Close e x w)))) \<and>
   (Dial n a opts e0 w0 = (Inr (c0, ts), w1) \<longrightarrow>
      fst (Close e2 (run between (snd (Close e1 (run before (c0, w1)))))) = Some ErrShutdown \<or>
      fst (Close e2 (run between (snd (Close e1 (run before (c0, w1)))))) = None)"
proof (intro conjI impI)
  show "closed (fst (snd (Close e (c, w))))"
    by (simp add: Close_def split: option.splits prod.splits)
next
  assume "getClient c = None"
  then show "Close e (c, w) = (Some ErrShutdown, (c\<lparr>closed := True\<rparr>, w))"
    by (simp add: Close_def)
next
  assume "getClient c = Some x" and "\<not> closeCanBeCalled c"
  then show "Close e (c, w) = (None, (c\<lparr>closed := True, closeCanBeCalled := True\<rparr>, w))"
    by (simp add: Close_def)
next
  assume "getClient c = Some x" and "closeCanBeCalled c"
  then show "Close e (c, w) =
      (fst (rpc_Client_Close e x w), (c\<lparr>closed := True\<rparr>, snd (rpc_Client_Close e x w)))"
    by (simp add: Close_def split: prod.splits)
next
  assume "Dial n a opts e0 w0 = (Inr (c0, ts), w1)"
  then have "lifecycle_inv (run before (c0, w1))"
    by (simp add: Dial_lifecycle run_lifecycle)
  then have "closePermission_inv (run before (c0, w1))"
    by (simp add: lifecycle_inv_def)
  then have s1: "shut (snd (Close e1 (run before (c0, w1))))"
    by (rule Close_makes_shut)
  then have "frozen (snd (Close e1 (run before (c0, w1))))
               (run between (snd (Close e1 (run before (c0, w1)))))"
    by (rule run_shut)
  with s1 have "shut (run between (snd (Close e1 (run before (c0, w1)))))"
    by (rule frozen_shut)
  then show "fst (Close e2 (run between (snd (Close e1 (run before (c0, w1)))))) =
               Some ErrShutdown \<or>
             fst (Close e2 (run between (snd (Close e1 (run before (c0, w1)))))) = None"
    by (rule Close_shut_result)
qed

theorem Close_cases_witness:
  "closed (fst (snd (Close env_up (tcp_client, tcp_world)))) \<and>
   getClient (tcp_client\<lparr>client := None\<rparr>) = None \<and>
   Close env_up (tcp_client\<lparr>client := None\<rparr>, tcp_world) =
     (Some ErrShutdown, (tcp_client\<lparr>client := None, closed := True\<rparr>, tcp_world)) \<and>
   getClient (fst before_close) = Some 0 \<and> \<not> closeCanBeCalled (fst before_close) \<and>
   Close env_up before_close =
     (None, ((fst before_close)\<lparr>closed := True, closeCanBeCalled := True\<rparr>, snd before_close)) \<and>
   getClient tcp_client = Some 0 \<and> closeCanBeCalled tcp_client \<and>
   Close env_up (tcp_client, tcp_world) =
     (None, (tcp_client\<lparr>closed := True\<rparr>, tcp_world\<lparr>closing := {0}\<rparr>)) \<and>
   Dial ''tcp'' ''h:1'' [WithBlock, WithHeartbeat ''Health.Ping'' 0 None] env_up new_world =
     (Inr (tcp_client, [MonitorTask]), tcp_world) \<and>
   fst (Close env_up later_on) = Some ErrShutdown"
proof -
  have f: "\<not> closeCanBeCalled (fst before_close)" "getClient (fst before_close) = Some 0"
    by (simp_all add: before_close_value getClient_def tcp_client_def)
  have g: "getClient tcp_client = Some 0" "closeCanBeCalled tcp_client"
    "getClient (tcp_client\<lparr>client := None\<rparr>) = None"
    by (simp_all add: getClient_def tcp_client_def)
  have r: "rpc_Client_Close env_up 0 tcp_world = (None, tcp_world\<lparr>closing := {0}\<rparr>)"
    by (simp add: rpc_Client_Close_def tcp_world_def env_up_def)
  have l: "later_on =
      run [(env_up, Api ApiReset), (env_up, Tick), (env_up, Handle (Some ErrShutdown))]
        (snd (Close env_up (run [(env_refused, Api ApiReset)] (tcp_client, tcp_world))))"
    by (simp only: later_on_def after_close_def before_close_def)
  have n: "fst (Close env_up later_on) \<noteq> None"
    by (simp add: later_on_value after_close_value Close_def rpc_Client_Close_def
        getClient_def tcp_client_def tcp_world_def)
  show ?thesis
    using Close_cases [of env_up tcp_client tcp_world 0 "''tcp''" "''h:1''"
        "[WithBlock, WithHeartbeat ''Health.Ping'' 0 None]" env_up new_world tcp_client
        "[MonitorTask]" tcp_world env_up
        "[(env_up, Api ApiReset), (env_up, Tick), (env_up, Handle (Some ErrShutdown))]"
        env_up "[(env_refused, Api ApiReset)]"]
      Close_cases [of env_up "fst before_close" "snd before_close" 0, THEN conjunct2,
        THEN conjunct2, THEN conjunct1]
      Close_cases [of env_up "tcp_client\<lparr>client := None\<rparr>" tcp_world, THEN conjunct2,
        THEN conjunct1]
      Dial_tcp f g r n
    unfolding l [symmetric]
    by simp
qed

subsection \<open>C4: the defaults of Dial\<close>

lemma WithTimeout_timeout:
  "timeout (WithTimeout d o') = (if d \<le> 0 then 5 * Second else d)"
  by (simp add: WithTimeout_def)

lemma WithHeartbeat_interval:
  "m \<noteq> [] \<Longrightarrow>
     pingInterval (WithHeartbeat m i h o') = (if i \<le> 0 then 500 * Millisecond else i)"
  by (simp add: WithHeartbeat_def)

lemma foldl_options_timeout:
  "\<forall>opt \<in> set opts. \<forall>o'. timeout (opt o') = timeout o' \<Longrightarrow>
     timeout (foldl (\<lambda>o' opt. opt o') o0 opts) = timeout o0"
  by (induction opts arbitrary: o0) simp_all

lemma Dial_dialOptions:
  assumes "Dial n a opts e w = (Inr (c, ts), w1)"
  shows "dialOptions c =
           (case foldl (\<lambda>o' opt. opt o') zero_dialOptions (opts @ [withNetworkAddress n a]) of
              o1 \<Rightarrow> if logger o1 = None then WithLogger (Some defaultLogger) o1 else o1)"
proof -
  have r: "dialOptions c1 = dialOptions c0" if "Reset e (c0, w) = (x, (c1, w2))"
    for c0 c1 x w2
    using Reset_dialOptions [of e "(c0, w)"] that by simp
  show ?thesis
    using assms
    by (auto simp add: Dial_def split: if_splits prod.splits option.splits dest!: r)
qed

text \<open>
  A dial none of whose options touches the timeout is made without a timeout: the
  client keeps the zero value.
\<close>

lemma Dial_timeout_unset:
  assumes "Dial n a opts e w = (Inr (c, ts), w1)"
    and "\<forall>opt \<in> set opts. \<forall>o'. timeout (opt o') = timeout o'"
  shows "timeout (dialOptions c) = 0"
proof -
  have "\<forall>opt \<in> set (opts @ [withNetworkAddress n a]). \<forall>o'. timeout (opt o') = timeout o'"
    using assms(2) by (simp add: withNetworkAddress_def)
  then have "timeout (foldl (\<lambda>o' opt. opt o') zero_dialOptions
                        (opts @ [withNetworkAddress n a])) = timeout zero_dialOptions"
    by (rule foldl_options_timeout)
  then show ?thesis
    using Dial_dialOptions [OF assms(1)]
    by (simp add: zero_dialOptions_def WithLogger_def)
qed

text \<open>
  A dial whose last option is \<^verbatim>\<open>WithTimeout\<close> with a duration that is not positive
  has the timeout of 5 seconds, and one whose last option is \<^verbatim>\<open>WithHeartbeat\<close> with a
  method name and an interval that is not positive has the interval of 500
  milliseconds.
\<close>

lemma Dial_WithTimeout_last:
  assumes "Dial n a (opts @ [WithTimeout d]) e w = (Inr (c, ts), w1)" and "d \<le> 0"
  shows "timeout (dialOptions c) = 5 * Second"
  using Dial_dialOptions [OF assms(1)] assms(2)
  by (simp add: WithTimeout_def withNetworkAddress_def WithLogger_def)

lemma Dial_WithHeartbeat_last:
  assumes "Dial n a (opts @ [WithHeartbeat m i h]) e w = (Inr (c, ts), w1)"
    and "m \<noteq> []" and "i \<le> 0"
  shows "pingInterval (dialOptions c) = 500 * Millisecond"
  using Dial_dialOptions [OF assms(1)] assms(2,3)
  by (simp add: WithHeartbeat_def withNetworkAddress_def WithLogger_def)

text \<open>
  C4. The heartbeat half holds (\<open>WithHeartbeat_interval\<close>, \<open>Dial_WithHeartbeat_last\<close>).
  The timeout half does not hold for a dial without \<^verbatim>\<open>WithTimeout\<close>:
  \<^verbatim>\<open>Dial("tcp", "h:1", WithBlock(), WithHeartbeat("Health.Ping", 0, nil))\<close> returns a
  client whose timeout is 0, not 5 seconds, and has dialled with a dialer whose
  timeout is 0, which is no timeout; the heartbeat interval of that client is 500
  milliseconds.
\<close>

theorem Dial_without_WithTimeout:
  "Dial ''tcp'' ''h:1'' [WithBlock, WithHeartbeat ''Health.Ping'' 0 None] env_up new_world =
     (Inr (tcp_client, [MonitorTask]), tcp_world) \<and>
   timeout (dialOptions tcp_client) = 0 \<and>
   timeout (dialOptions tcp_client) \<noteq> 5 * Second \<and>
   map (\<lambda>d. Timeout (fst d)) (dials tcp_world) = [0] \<and>
   pingInterval (dialOptions tcp_client) = 500 * Millisecond"
  using Dial_tcp
  by (simp add: tcp_client_def tcp_options_def tcp_world_def Second_def Millisecond_def)

subsection \<open>C5: Call and the cancellation-aware call\<close>

text \<open>
  C5. \<^verbatim>\<open>Call\<close> is \<^verbatim>\<open>CallContext\<close> with \<^verbatim>\<open>context.Background()\<close>, a token that never
  fires. And every token that never fires gives the same: the dispatcher
  \<^verbatim>\<open>callContext\<close> returns with it what it returns with the background token, and so
  does \<^verbatim>\<open>CallContext\<close> of a client without a call interceptor.
\<close>

theorem Call_is_CallContext_never_firing:
  "Call e c m a r w = CallContext e c Background m a r w \<and>
   ctx_fires Background = None \<and>
   (ctx_fires t = None \<longrightarrow>
      callContext e c t m a r w = callContext e c Background m a r w) \<and>
   (ctx_fires t = None \<longrightarrow> callInterceptor (dialOptions c) = None \<longrightarrow>
      CallContext e c t m a r w = Call e c m a r w)"
proof -
  have d: "callContext e c t m a r w = callContext e c Background m a r w"
    if "ctx_fires t = None"
  proof (cases "getClient c")
    case None
    then show ?thesis by (simp add: callContext_def)
  next
    case (Some y)
    obtain g w1 where g: "rpc_Client_Go e y m a r w = (g, w1)"
      by (cases "rpc_Client_Go e y m a r w")
    with Some that show ?thesis
      by (cases g)
         (auto simp add: callContext_def select2_def ctx_Done_after_def ctx_Done_def
            split: option.splits)
  qed
  then show ?thesis
    by (simp add: Call_def CallContext_def)
qed

theorem Call_is_CallContext_never_firing_witness:
  "ctx_fires (peer_NewContext (Token None) ''h:1'') = None \<and>
   callInterceptor (dialOptions tcp_client) = None \<and>
   callContext env_up tcp_client (peer_NewContext (Token None) ''h:1'') ''Arith.Add''
     (Value ''1 2'') EmptyStruct tcp_world =
     callContext env_up tcp_client Background ''Arith.Add'' (Value ''1 2'') EmptyStruct
       tcp_world \<and>
   CallContext env_up tcp_client (peer_NewContext (Token None) ''h:1'') ''Arith.Add''
     (Value ''1 2'') EmptyStruct tcp_world =
     Call env_up tcp_client ''Arith.Add'' (Value ''1 2'') EmptyStruct tcp_world \<and>
   Call env_up tcp_client ''Arith.Add'' (Value ''1 2'') EmptyStruct tcp_world =
     (Returned None, tcp_world\<lparr>goCalls := [(0, ''Arith.Add'', Value ''1 2'')]\<rparr>)"
proof -
  have i: "callInterceptor (dialOptions tcp_client) = None"
    by (simp add: tcp_client_def tcp_options_def)
  have v: "Call env_up tcp_client ''Arith.Add'' (Value ''1 2'') EmptyStruct tcp_world =
      (Returned None, tcp_world\<lparr>goCalls := [(0, ''Arith.Add'', Value ''1 2'')]\<rparr>)"
    by (simp add: Call_def CallContext_def callContext_def example_defs operation_defs)
  show ?thesis
    using Call_is_CallContext_never_firing [of env_up tcp_client "''Arith.Add''"
        "Value ''1 2''" EmptyStruct tcp_world "peer_NewContext (Token None) ''h:1''"] i v
    by (simp add: peer_NewContext_def)
qed

subsection \<open>C6: the synthetic futures of the asynchronous call\<close>

text \<open>
  C6. Without a session \<^verbatim>\<open>goContext\<close> returns, whatever the token, a call that is
  complete already and carries \<^verbatim>\<open>ErrShutdown\<close>, and leaves the world alone; so do
  \<^verbatim>\<open>Go\<close> and \<^verbatim>\<open>GoContext\<close> of a client without an interceptor. With a session, when
  the token fires before the goroutine has handed over the call it started, the
  result is a call that is complete already and carries the token's error: so it is
  when the token fires before the goroutine gets to its call of \<^verbatim>\<open>Go\<close>, and more
  generally when it fires before \<^verbatim>\<open>Go\<close> has returned there, or \<^verbatim>\<open>Go\<close> never returns.
\<close>

theorem goContext_synthetic:
  "(getClient c = None \<longrightarrow>
      goContext e c t m a r w =
        (Returned \<lparr>ServiceMethod = m, Args = a, Reply = r, Error = Some ErrShutdown,
                   Done = Some 0\<rparr>, w)) \<and>
   (getClient c = None \<longrightarrow> goInterceptor (dialOptions c) = None \<longrightarrow>
      Go e c m a r w =
        (Returned \<lparr>ServiceMethod = m, Args = a, Reply = r, Error = Some ErrShutdown,
                   Done = Some 0\<rparr>, w) \<and>
      GoContext e c t m a r w =
        (Returned \<lparr>ServiceMethod = m, Args = a, Reply = r, Error = Some ErrShutdown,
                   Done = Some 0\<rparr>, w)) \<and>
   (getClient c = Some x \<longrightarrow> ctx_fires t = Some (d, err) \<longrightarrow> d < delegation e \<longrightarrow>
      fst (goContext e c t m a r w) =
        Returned \<lparr>ServiceMethod = m, Args = a, Reply = r, Error = Some err,
                  Done = Some 0\<rparr> \<and>
      (goInterceptor (dialOptions c) = None \<longrightarrow>
         fst (GoContext e c t m a r w) =
           Returned \<lparr>ServiceMethod = m, Args = a, Reply = r, Error = Some err,
                     Done = Some 0\<rparr>)) \<and>
   (getClient c = Some x \<longrightarrow> ctx_fires t = Some (d, err) \<longrightarrow>
      (\<forall>h. handed_over e (fst (rpc_Client_Go e x m a r w)) = Some h \<longrightarrow> d < h) \<longrightarrow>
      fst (goContext e c t m a r w) =
        Returned \<lparr>ServiceMethod = m, Args = a, Reply = r, Error = Some err,
                  Done = Some 0\<rparr>)"
proof -
  have n: "goContext e c t' m a r w =
      (Returned \<lparr>ServiceMethod = m, Args = a, Reply = r, Error = Some ErrShutdown,
                 Done = Some 0\<rparr>, w)"
    if "getClient c = None" for t'
    using that by (simp add: goContext_def completed_Call_def)
  have h: "fst (goContext e c t m a r w) =
      Returned \<lparr>ServiceMethod = m, Args = a, Reply = r, Error = Some err, Done = Some 0\<rparr>"
    if s: "getClient c = Some x" and t: "ctx_fires t = Some (d, err)"
      and l: "\<forall>h. handed_over e (fst (rpc_Client_Go e x m a r w)) = Some h \<longrightarrow> d < h"
  proof -
    from t have b: "t \<noteq> Background" by auto
    obtain g w1 where g: "rpc_Client_Go e x m a r w = (g, w1)"
      by (cases "rpc_Client_Go e x m a r w")
    with l have "select2 (pick e) (handed_over e g) (Some d) = Returned SecondCase"
      by (cases "handed_over e g") (simp_all add: select2_def)
    with s t b g show ?thesis
      by (simp add: goContext_def completed_Call_def ctx_Done_def ctx_Err_def)
  qed
  have f: "fst (goContext e c t m a r w) =
      Returned \<lparr>ServiceMethod = m, Args = a, Reply = r, Error = Some err, Done = Some 0\<rparr>"
    if "getClient c = Some x" and "ctx_fires t = Some (d, err)" and "d < delegation e"
  proof -
    have "\<forall>h. handed_over e (fst (rpc_Client_Go e x m a r w)) = Some h \<longrightarrow> d < h"
      using that(3)
      by (auto simp add: handed_over_def split: blocking.splits)
    with that(1,2) show ?thesis by (rule h)
  qed
  show ?thesis
    using n f h by (simp add: Go_def GoContext_def)
qed

theorem goContext_synthetic_witness:
  "getClient (tcp_client\<lparr>client := None\<rparr>) = None \<and>
   goInterceptor (dialOptions (tcp_client\<lparr>client := None\<rparr>)) = None \<and>
   Go env_up (tcp_client\<lparr>client := None\<rparr>) ''Arith.Add'' (Value ''1 2'') EmptyStruct tcp_world =
     (Returned \<lparr>ServiceMethod = ''Arith.Add'', Args = Value ''1 2'', Reply = EmptyStruct,
                Error = Some ErrShutdown, Done = Some 0\<rparr>, tcp_world) \<and>
   goContext env_up (tcp_client\<lparr>client := None\<rparr>) (Token (Some (0, Canceled))) ''Arith.Add''
     (Value ''1 2'') EmptyStruct tcp_world =
     (Returned \<lparr>ServiceMethod = ''Arith.Add'', Args = Value ''1 2'', Reply = EmptyStruct,
                Error = Some ErrShutdown, Done = Some 0\<rparr>, tcp_world) \<and>
   getClient tcp_client = Some 0 \<and>
   ctx_fires (Token (Some (0, Canceled))) = Some (0, Canceled) \<and>
   0 < delegation env_up \<and>
   fst (goContext env_up tcp_client (Token (Some (0, Canceled))) ''Arith.Add''
          (Value ''1 2'') EmptyStruct tcp_world) =
     Returned \<lparr>ServiceMethod = ''Arith.Add'', Args = Value ''1 2'', Reply = EmptyStruct,
               Error = Some Canceled, Done = Some 0\<rparr> \<and>
   ctx_fires (Token (Some (50000000, DeadlineExceeded))) = Some (50000000, DeadlineExceeded) \<and>
   handed_over env_stalled
     (fst (rpc_Client_Go env_stalled 0 ''Arith.Add'' (Value ''1 2'') EmptyStruct tcp_world)) =
     None \<and>
   fst (goContext env_stalled tcp_client (Token (Some (50000000, DeadlineExceeded)))
          ''Arith.Add'' (Value ''1 2'') EmptyStruct tcp_world) =
     Returned \<lparr>ServiceMethod = ''Arith.Add'', Args = Value ''1 2'', Reply = EmptyStruct,
               Error = Some DeadlineExceeded, Done = Some 0\<rparr>"
proof -
  have s: "handed_over env_stalled
      (fst (rpc_Client_Go env_stalled 0 ''Arith.Add'' (Value ''1 2'') EmptyStruct tcp_world)) =
      None"
    by (simp add: handed_over_def rpc_Client_Go_def env_stalled_def env_up_def tcp_world_def)
  have g: "getClient (tcp_client\<lparr>client := None\<rparr>) = None"
    "goInterceptor (dialOptions (tcp_client\<lparr>client := None\<rparr>)) = None"
    "getClient tcp_client = Some 0" "0 < delegation env_up"
    by (simp_all add: getClient_def tcp_client_def tcp_options_def env_up_def)
  show ?thesis
    using goContext_synthetic [of "tcp_client\<lparr>client := None\<rparr>" env_up
        "Token (Some (0, Canceled))" "''Arith.Add''" "Value ''1 2''" EmptyStruct tcp_world]
      goContext_synthetic [of tcp_client env_up "Token (Some (0, Canceled))" "''Arith.Add''"
        "Value ''1 2''" EmptyStruct tcp_world 0 0 Canceled, THEN conjunct2, THEN conjunct2,
        THEN conjunct1]
      goContext_synthetic [of tcp_client env_stalled
        "Token (Some (50000000, DeadlineExceeded))" "''Arith.Add''" "Value ''1 2''" EmptyStruct
        tcp_world 0 50000000 DeadlineExceeded, THEN conjunct2, THEN conjunct2, THEN conjunct2]
      g s
    by simp
qed

subsection \<open>C7: the race of a call against its token\<close>

text \<open>
  What \<^verbatim>\<open>callContext\<close> does. Without a session it returns \<^verbatim>\<open>ErrShutdown\<close> at once:
  the world is untouched. With a session it calls \<^verbatim>\<open>Go\<close> first. While \<^verbatim>\<open>Go\<close> has not
  returned, \<^verbatim>\<open>callContext\<close> has not either, whatever the token does. Once \<^verbatim>\<open>Go\<close> has
  returned, after \<open>k\<close> nanoseconds, the call it returned races against the token as
  the token is by then: the one that is ready first gives the result, and when both
  are ready at the same time the \<^verbatim>\<open>select\<close> picks.
\<close>

lemma callContext_cases:
  "(getClient c = None \<longrightarrow> callContext e c t m a r w = (Returned (Some ErrShutdown), w)) \<and>
   (getClient c = Some x \<longrightarrow> rpc_Client_Go e x m a r w = (Blocked, w1) \<longrightarrow>
      callContext e c t m a r w = (Blocked, w1)) \<and>
   (getClient c = Some x \<longrightarrow> rpc_Client_Go e x m a r w = (Returned (k, call), w1) \<longrightarrow>
      (ctx_fires t = Some (d, err) \<longrightarrow> (\<forall>j. Done call = Some j \<longrightarrow> d - k < j) \<longrightarrow>
         callContext e c t m a r w = (Returned (Some err), w1)) \<and>
      (Done call = Some j \<longrightarrow> (\<forall>d' err'. ctx_fires t = Some (d', err') \<longrightarrow> j < d' - k) \<longrightarrow>
         callContext e c t m a r w = (Returned (Error call), w1)) \<and>
      (Done call = Some j \<longrightarrow> ctx_fires t = Some (d, err) \<longrightarrow> d - k = j \<longrightarrow>
         callContext e c t m a r w =
           (Returned (if pick e then Error call else Some err), w1)) \<and>
      (Done call = None \<longrightarrow> ctx_fires t = None \<longrightarrow>
         callContext e c t m a r w = (Blocked, w1)))"
proof (intro conjI impI)
  assume "getClient c = None"
  then show "callContext e c t m a r w = (Returned (Some ErrShutdown), w)"
    by (simp add: callContext_def)
next
  assume "getClient c = Some x" and "rpc_Client_Go e x m a r w = (Blocked, w1)"
  then show "callContext e c t m a r w = (Blocked, w1)"
    by (simp add: callContext_def)
next
  assume s: "getClient c = Some x" "rpc_Client_Go e x m a r w = (Returned (k, call), w1)"
    and f: "ctx_fires t = Some (d, err)" and l: "\<forall>j. Done call = Some j \<longrightarrow> d - k < j"
  from f have "t \<noteq> Background" by auto
  with s f l show "callContext e c t m a r w = (Returned (Some err), w1)"
    by (cases "Done call")
       (simp_all add: callContext_def select2_def ctx_Done_after_def ctx_Done_def ctx_Err_def)
next
  assume s: "getClient c = Some x" "rpc_Client_Go e x m a r w = (Returned (k, call), w1)"
    and j: "Done call = Some j"
    and l: "\<forall>d' err'. ctx_fires t = Some (d', err') \<longrightarrow> j < d' - k"
  show "callContext e c t m a r w = (Returned (Error call), w1)"
  proof (cases "ctx_fires t")
    case None
    with s j show ?thesis
      by (simp add: callContext_def select2_def ctx_Done_after_def ctx_Done_def)
  next
    case (Some f)
    obtain d' err' where f: "f = (d', err')" by (cases f)
    with l Some have "j < d' - k" by simp
    moreover from Some have "t \<noteq> Background" by auto
    ultimately show ?thesis
      using s j Some f
      by (simp add: callContext_def select2_def ctx_Done_after_def ctx_Done_def)
  qed
next
  assume s: "getClient c = Some x" "rpc_Client_Go e x m a r w = (Returned (k, call), w1)"
    and j: "Done call = Some j" and f: "ctx_fires t = Some (d, err)" and q: "d - k = j"
  from f have "t \<noteq> Background" by auto
  with s j f q show "callContext e c t m a r w =
      (Returned (if pick e then Error call else Some err), w1)"
    by (simp add: callContext_def select2_def ctx_Done_after_def ctx_Done_def ctx_Err_def)
next
  assume s: "getClient c = Some x" "rpc_Client_Go e x m a r w = (Returned (k, call), w1)"
    and j: "Done call = None" and f: "ctx_fires t = None"
  then show "callContext e c t m a r w = (Blocked, w1)"
    by (simp add: callContext_def select2_def ctx_Done_after_def ctx_Done_def)
qed

text \<open>
  C7. The first half holds (\<open>callContext_cases\<close>). The second half does not hold while
  \<^verbatim>\<open>Go\<close> is writing the request: on the client of the example, whose session is
  live, with a peer that has stopped reading, a call with a token that fires after 50
  milliseconds does not return, neither at 50 milliseconds nor later, although the
  token has fired and the call has not completed. \<^verbatim>\<open>goContext\<close>, which calls \<^verbatim>\<open>Go\<close>
  in a goroutine of its own, returns the token's error on the same input.
\<close>

theorem callContext_blocked_in_Go:
  "getClient tcp_client = Some 0 \<and> 0 \<notin> closing tcp_world \<and>
   go_returns env_stalled 0 ''Arith.Add'' (Value ''1 2'') = None \<and>
   ctx_fires (Token (Some (50000000, DeadlineExceeded))) = Some (50000000, DeadlineExceeded) \<and>
   callContext env_stalled tcp_client (Token (Some (50000000, DeadlineExceeded))) ''Arith.Add''
     (Value ''1 2'') EmptyStruct tcp_world =
     (Blocked, tcp_world\<lparr>goCalls := [(0, ''Arith.Add'', Value ''1 2'')]\<rparr>) \<and>
   fst (goContext env_stalled tcp_client (Token (Some (50000000, DeadlineExceeded)))
          ''Arith.Add'' (Value ''1 2'') EmptyStruct tcp_world) =
     Returned \<lparr>ServiceMethod = ''Arith.Add'', Args = Value ''1 2'', Reply = EmptyStruct,
               Error = Some DeadlineExceeded, Done = Some 0\<rparr>"
  by (simp add: callContext_def goContext_def rpc_Client_Go_def handed_over_def select2_def
      completed_Call_def ctx_Done_def ctx_Err_def getClient_def env_stalled_def env_up_def
      tcp_client_def tcp_world_def)

subsection \<open>C8: a tick of the heartbeat monitor\<close>

text \<open>
  C8, as stated, fails in its last part. The monitor gives up the lock after it has
  read \<^verbatim>\<open>closed\<close>. On the client of the example a tick that has read the flag before
  \<^verbatim>\<open>Close\<close> (it is false in \<open>before_close\<close>) goes on after \<^verbatim>\<open>Close\<close> has returned:
  it probes the session, so \<^verbatim>\<open>Go\<close> is called once more, and runs the handler, which
  tries to reconnect and logs the failure.
\<close>

theorem tick_in_flight_counterexample:
  "\<not> closed (fst before_close) \<and>
   Close env_up before_close = (None, after_close) \<and>
   closed (fst after_close) \<and>
   goCalls (snd after_close) = [] \<and>
   monitor_body env_up after_close =
     Continue (fst after_close,
               (snd after_close)\<lparr>goCalls := [(0, ''Health.Ping'', EmptyStruct)],
                 logged := [(defaultLogger, ''[error][rpcx]: Reset: connection is shut down'')]\<rparr>)"
proof -
  have a: "\<not> closed (fst before_close)"
    by (simp add: before_close_value tcp_client_def)
  have b: "Close env_up before_close = (None, after_close)"
    by (simp add: after_close_value before_close_value example_defs operation_defs)
  have c: "closed (fst after_close)" "goCalls (snd after_close) = []"
    by (simp_all add: after_close_value tcp_client_def tcp_world_def)
  have d: "monitor_body env_up after_close =
     Continue (fst after_close,
               (snd after_close)\<lparr>goCalls := [(0, ''Health.Ping'', EmptyStruct)],
                 logged := [(defaultLogger, ''[error][rpcx]: Reset: connection is shut down'')]\<rparr>)"
    by (simp add: after_close_value monitor_body_def ping_def callContext_def
        context_WithTimeout_def select2_def ctx_Done_after_def ctx_Done_def ctx_Err_def
        call_pingHandler_def defaultPingHandler_def example_defs operation_defs)
  show ?thesis
    by (intro conjI) (rule a b c d)+
qed

text \<open>
  C8, amended. A tick first reads \<^verbatim>\<open>closed\<close>: when it is true the monitor has
  returned, whatever ticks would follow, and nothing has happened; that is the case
  for every tick that starts after a \<^verbatim>\<open>Close\<close> has returned. Otherwise the tick goes
  on with the probe and the handler. The probe is \<^verbatim>\<open>callContext\<close> with a token that
  fires after 3 seconds, the configured method and the empty struct: \<^verbatim>\<open>Go\<close> is called
  exactly once on the session, if there is one, and nothing else of the world changes;
  when \<^verbatim>\<open>Go\<close> has returned and the answer takes more than 3 seconds or never comes,
  the result of the probe is \<^verbatim>\<open>DeadlineExceeded\<close>. When the probe has returned, the
  tick calls the configured handler with its result: the default handler, or the
  user's, whose calls are made on the client; without a handler it panics. The loop
  then waits for the next tick in the state the handler has left; it ends when a tick
  finds the client closed, panics or never returns from its probe.
\<close>

theorem monitor_tick_cases:
  "monitor_tick e (c, w) = (if closed c then Stopped else monitor_body e (c, w)) \<and>
   (closed c \<longrightarrow> monitor (e # es) (c, w) = Stopped \<and> exec e Tick (c, w) = (c, w)) \<and>
   (Dial n a opts e0 w0 = (Inr (c0, ts), w1) \<longrightarrow>
      monitor_tick e (run after (snd (Close e1 (run before (c0, w1))))) = Stopped) \<and>
   ping e c w =
     callContext e c (Token (Some (3000000000, DeadlineExceeded)))
       (pingServiceMethod (dialOptions c)) EmptyStruct EmptyStruct w \<and>
   snd (ping e c w) =
     w\<lparr>goCalls := goCalls w @
        (case getClient c of
           None \<Rightarrow> []
         | Some x \<Rightarrow> [(x, pingServiceMethod (dialOptions c), EmptyStruct)])\<rparr> \<and>
   (getClient c = Some x \<longrightarrow> x \<notin> closing w \<longrightarrow>
      go_returns e x (pingServiceMethod (dialOptions c)) EmptyStruct = Some k \<longrightarrow>
      (\<forall>j. call_Done e x (pingServiceMethod (dialOptions c)) EmptyStruct = Some j \<longrightarrow>
             3000000000 < j) \<longrightarrow>
      fst (ping e c w) = Returned (Some DeadlineExceeded)) \<and>
   (fst (ping e c w) = Blocked \<longrightarrow> monitor_body e (c, w) = Stuck) \<and>
   (fst (ping e c w) = Returned err \<longrightarrow>
      (pingHandler (dialOptions c) = None \<longrightarrow> monitor_body e (c, w) = Panicked) \<and>
      (pingHandler (dialOptions c) = Some defaultHandler \<longrightarrow>
         monitor_body e (c, w) =
           (case defaultPingHandler e err (c, snd (ping e c w)) of
              None \<Rightarrow> Panicked
            | Some s1 \<Rightarrow> Continue s1)) \<and>
      (pingHandler (dialOptions c) = Some (UserHandler h) \<longrightarrow>
         monitor_body e (c, w) = Continue (run_api (h err) (c, snd (ping e c w))))) \<and>
   monitor [] s = Continue s \<and>
   (monitor_tick e s = Continue s2 \<longrightarrow> monitor (e # es) s = monitor es s2) \<and>
   (monitor_tick e s = Stopped \<longrightarrow> monitor (e # es) s = Stopped) \<and>
   (monitor_tick e s = Stuck \<longrightarrow> monitor (e # es) s = Stuck) \<and>
   (monitor_tick e s = Panicked \<longrightarrow> monitor (e # es) s = Panicked)"
proof -
  have tick: "monitor_tick e (c, w) = (if closed c then Stopped else monitor_body e (c, w))"
    by (simp add: monitor_tick_def)
  have stop: "closed c \<longrightarrow> monitor (e # es) (c, w) = Stopped \<and> exec e Tick (c, w) = (c, w)"
    by (simp add: monitor_tick_closed)
  have after: "Dial n a opts e0 w0 = (Inr (c0, ts), w1) \<longrightarrow>
      monitor_tick e (run after (snd (Close e1 (run before (c0, w1))))) = Stopped"
  proof
    assume "Dial n a opts e0 w0 = (Inr (c0, ts), w1)"
    then have "lifecycle_inv (run before (c0, w1))"
      by (simp add: Dial_lifecycle run_lifecycle)
    then have "closePermission_inv (run before (c0, w1))"
      by (simp add: lifecycle_inv_def)
    then have "shut (snd (Close e1 (run before (c0, w1))))"
      by (rule Close_makes_shut)
    then have "frozen (snd (Close e1 (run before (c0, w1))))
                 (run after (snd (Close e1 (run before (c0, w1)))))"
      by (rule run_shut)
    then have "closed (fst (run after (snd (Close e1 (run before (c0, w1))))))"
      by (simp add: frozen_def)
    then show "monitor_tick e (run after (snd (Close e1 (run before (c0, w1))))) = Stopped"
      by (rule monitor_tick_closed)
  qed
  have probe: "ping e c w =
     callContext e c (Token (Some (3000000000, DeadlineExceeded)))
       (pingServiceMethod (dialOptions c)) EmptyStruct EmptyStruct w"
    by (simp add: ping_def context_WithTimeout_def Second_def Millisecond_def)
  have once: "snd (ping e c w) =
     w\<lparr>goCalls := goCalls w @
        (case getClient c of
           None \<Rightarrow> []
         | Some x \<Rightarrow> [(x, pingServiceMethod (dialOptions c), EmptyStruct)])\<rparr>"
    by (rule ping_world)
  have late: "getClient c = Some x \<longrightarrow> x \<notin> closing w \<longrightarrow>
      go_returns e x (pingServiceMethod (dialOptions c)) EmptyStruct = Some k \<longrightarrow>
      (\<forall>j. call_Done e x (pingServiceMethod (dialOptions c)) EmptyStruct = Some j \<longrightarrow>
             3000000000 < j) \<longrightarrow>
      fst (ping e c w) = Returned (Some DeadlineExceeded)"
  proof (intro impI)
    assume "getClient c = Some x" and "x \<notin> closing w"
      and "go_returns e x (pingServiceMethod (dialOptions c)) EmptyStruct = Some k"
      and l: "\<forall>j. call_Done e x (pingServiceMethod (dialOptions c)) EmptyStruct = Some j \<longrightarrow>
             3000000000 < j"
    moreover have "3000000000 - k < j \<and> \<not> j < 3000000000 - k" if "3000000000 < j" for j :: nat
      using that by arith
    ultimately show "fst (ping e c w) = Returned (Some DeadlineExceeded)"
      by (cases "call_Done e x (pingServiceMethod (dialOptions c)) EmptyStruct")
         (simp_all add: ping_def callContext_def rpc_Client_Go_def context_WithTimeout_def
            select2_def ctx_Done_after_def ctx_Done_def ctx_Err_def Second_def
            Millisecond_def)
  qed
  have stuck: "fst (ping e c w) = Blocked \<longrightarrow> monitor_body e (c, w) = Stuck"
    by (cases "ping e c w") (simp add: monitor_body_def)
  have handler: "fst (ping e c w) = Returned err \<longrightarrow>
      (pingHandler (dialOptions c) = None \<longrightarrow> monitor_body e (c, w) = Panicked) \<and>
      (pingHandler (dialOptions c) = Some defaultHandler \<longrightarrow>
         monitor_body e (c, w) =
           (case defaultPingHandler e err (c, snd (ping e c w)) of
              None \<Rightarrow> Panicked
            | Some s1 \<Rightarrow> Continue s1)) \<and>
      (pingHandler (dialOptions c) = Some (UserHandler h) \<longrightarrow>
         monitor_body e (c, w) = Continue (run_api (h err) (c, snd (ping e c w))))"
    by (cases "ping e c w") (simp add: monitor_body_def call_pingHandler_def)
  have loop: "monitor [] s = Continue s"
    "monitor_tick e s = Continue s2 \<longrightarrow> monitor (e # es) s = monitor es s2"
    "monitor_tick e s = Stopped \<longrightarrow> monitor (e # es) s = Stopped"
    "monitor_tick e s = Stuck \<longrightarrow> monitor (e # es) s = Stuck"
    "monitor_tick e s = Panicked \<longrightarrow> monitor (e # es) s = Panicked"
    by simp_all
  show ?thesis
    by (intro conjI) (rule tick stop after probe once late stuck handler loop)+
qed

theorem monitor_tick_cases_witness:
  "closed (fst after_close) \<and>
   monitor_tick env_up after_close = Stopped \<and>
   monitor [env_up, env_up] after_close = Stopped \<and>
   exec env_up Tick after_close = after_close \<and>
   Dial ''tcp'' ''h:1'' [WithBlock, WithHeartbeat ''Health.Ping'' 0 None] env_up new_world =
     (Inr (tcp_client, [MonitorTask]), tcp_world) \<and>
   monitor_tick env_up later_on = Stopped \<and>
   \<not> closed tcp_client \<and>
   pingHandler (dialOptions tcp_client) = Some defaultHandler \<and>
   ping env_up tcp_client tcp_world =
     (Returned None, tcp_world\<lparr>goCalls := [(0, ''Health.Ping'', EmptyStruct)]\<rparr>) \<and>
   monitor_tick env_up (tcp_client, tcp_world) =
     Continue (tcp_client, tcp_world\<lparr>goCalls := [(0, ''Health.Ping'', EmptyStruct)]\<rparr>) \<and>
   monitor [env_up, env_up] (tcp_client, tcp_world) =
     Continue (tcp_client,
               tcp_world\<lparr>goCalls := [(0, ''Health.Ping'', EmptyStruct),
                                       (0, ''Health.Ping'', EmptyStruct)]\<rparr>) \<and>
   fst (ping (env_up\<lparr>call_Error := \<lambda>x m a. Some (ErrOther ''no such method'')\<rparr>) tcp_client
          tcp_world) = Returned (Some (ErrOther ''no such method'')) \<and>
   monitor_tick (env_up\<lparr>call_Error := \<lambda>x m a. Some (ErrOther ''no such method'')\<rparr>)
     (tcp_client, tcp_world) =
     Continue (tcp_client,
               tcp_world\<lparr>goCalls := [(0, ''Health.Ping'', EmptyStruct)],
                 logged := [(defaultLogger, ''[error][rpcx]: ping: no such method'')]\<rparr>) \<and>
   fst (ping env_stalled tcp_client tcp_world) = Blocked \<and>
   monitor_tick env_stalled (tcp_client, tcp_world) = Stuck \<and>
   monitor [env_stalled, env_up] (tcp_client, tcp_world) = Stuck \<and>
   getClient tcp_client = Some 0 \<and> 0 \<notin> closing tcp_world \<and>
   go_returns (env_up\<lparr>call_Done := \<lambda>x m a. Some 4000000000\<rparr>) 0 ''Health.Ping'' EmptyStruct =
     Some 0 \<and>
   fst (ping (env_up\<lparr>call_Done := \<lambda>x m a. Some 4000000000\<rparr>) tcp_client tcp_world) =
     Returned (Some DeadlineExceeded) \<and>
   pingHandler (dialOptions no_handler_client) = None \<and>
   monitor_tick env_up (no_handler_client, tcp_world) = Panicked \<and>
   monitor [env_up, env_up] (no_handler_client, tcp_world) = Panicked \<and>
   pingHandler (dialOptions closing_handler_client) =
     Some (UserHandler (\<lambda>err. [(env_up, ApiClose)])) \<and>
   monitor_tick env_up (closing_handler_client, tcp_world) =
     Continue (closing_handler_client\<lparr>closed := True\<rparr>,
               tcp_world\<lparr>closing := {0}, goCalls := [(0, ''Health.Ping'', EmptyStruct)]\<rparr>) \<and>
   monitor [env_up, env_up] (closing_handler_client, tcp_world) = Stopped"
proof -
  let ?P = "(0::nat, ''Health.Ping'', EmptyStruct)"
  let ?w1 = "tcp_world\<lparr>goCalls := [?P]\<rparr>"
  let ?w2 = "tcp_world\<lparr>goCalls := [?P, ?P]\<rparr>"
  let ?bad = "env_up\<lparr>call_Error := \<lambda>x m a. Some (ErrOther ''no such method'')\<rparr>"
  let ?slow = "env_up\<lparr>call_Done := \<lambda>x m a. Some 4000000000\<rparr>"
  have c: "closed (fst after_close)" "\<not> closed tcp_client" "getClient tcp_client = Some 0"
    "0 \<notin> closing tcp_world" "pingHandler (dialOptions tcp_client) = Some defaultHandler"
    "pingServiceMethod (dialOptions tcp_client) = ''Health.Ping''"
    "goCalls tcp_world = []"
    by (simp_all add: after_close_value getClient_def tcp_client_def tcp_options_def
        tcp_world_def)
  have l: "later_on =
      run [(env_up, Api ApiReset), (env_up, Tick), (env_up, Handle (Some ErrShutdown))]
        (snd (Close env_up (run [(env_refused, Api ApiReset)] (tcp_client, tcp_world))))"
    by (simp only: later_on_def after_close_def before_close_def)
  have ev: "fst (ping env_up tcp_client tcp_world) = Returned None"
    "fst (ping env_up tcp_client ?w1) = Returned None"
    "fst (ping ?bad tcp_client tcp_world) = Returned (Some (ErrOther ''no such method''))"
    "fst (ping env_stalled tcp_client tcp_world) = Blocked"
    by (simp_all add: ping_def callContext_def rpc_Client_Go_def select2_def
        ctx_Done_after_def ctx_Done_def context_WithTimeout_def example_defs env_stalled_def
        getClient_def Second_def Millisecond_def)

  note A = monitor_tick_cases [where e = env_up and c = "fst after_close"
      and w = "snd after_close" and es = "[env_up]"]
  from A c(1) have "monitor_tick env_up (fst after_close, snd after_close) = Stopped"
    "monitor [env_up, env_up] (fst after_close, snd after_close) = Stopped"
    "exec env_up Tick (fst after_close, snd after_close) = (fst after_close, snd after_close)"
    by (simp_all only: if_True simp_thms)
  then have stopped: "monitor_tick env_up after_close = Stopped"
    "monitor [env_up, env_up] after_close = Stopped"
    "exec env_up Tick after_close = after_close"
    by simp_all

  note B = monitor_tick_cases [where e = env_up and n = "''tcp''" and a = "''h:1''"
      and opts = "[WithBlock, WithHeartbeat ''Health.Ping'' 0 None]" and ?e0.0 = env_up
      and ?w0.0 = new_world and ?c0.0 = tcp_client and ts = "[MonitorTask]"
      and ?w1.0 = tcp_world and ?e1.0 = env_up
      and before = "[(env_refused, Api ApiReset)]"
      and after = "[(env_up, Api ApiReset), (env_up, Tick), (env_up, Handle (Some ErrShutdown))]"]
  from B Dial_tcp have later: "monitor_tick env_up later_on = Stopped"
    unfolding l by blast

  note T = monitor_tick_cases [where e = env_up and c = tcp_client and w = tcp_world
      and err = None and s = "(tcp_client, tcp_world)" and ?s2.0 = "(tcp_client, ?w1)"
      and es = "[env_up]"]
  from T have "snd (ping env_up tcp_client tcp_world) =
      tcp_world\<lparr>goCalls := goCalls tcp_world @
        (case getClient tcp_client of
           None \<Rightarrow> []
         | Some x \<Rightarrow> [(x, pingServiceMethod (dialOptions tcp_client), EmptyStruct)])\<rparr>"
    by blast
  then have w1: "snd (ping env_up tcp_client tcp_world) = ?w1"
    by (simp add: c)
  from T ev(1) c(5) have "monitor_body env_up (tcp_client, tcp_world) =
      (case defaultPingHandler env_up None (tcp_client, snd (ping env_up tcp_client tcp_world)) of
         None \<Rightarrow> Panicked | Some s1 \<Rightarrow> Continue s1)"
    by blast
  moreover from T have "monitor_tick env_up (tcp_client, tcp_world) =
      (if closed tcp_client then Stopped else monitor_body env_up (tcp_client, tcp_world))"
    by blast
  ultimately have tick1: "monitor_tick env_up (tcp_client, tcp_world) = Continue (tcp_client, ?w1)"
    using c(2) w1 by (simp add: defaultPingHandler_def)
  have p1: "ping env_up tcp_client tcp_world = (Returned None, ?w1)"
    using ev(1) w1 by (cases "ping env_up tcp_client tcp_world") simp

  note U = monitor_tick_cases [where e = env_up and c = tcp_client and w = ?w1
      and err = None and s = "(tcp_client, ?w1)" and ?s2.0 = "(tcp_client, ?w2)"
      and es = "[]"]
  from U have "snd (ping env_up tcp_client ?w1) =
      ?w1\<lparr>goCalls := goCalls ?w1 @
        (case getClient tcp_client of
           None \<Rightarrow> []
         | Some x \<Rightarrow> [(x, pingServiceMethod (dialOptions tcp_client), EmptyStruct)])\<rparr>"
    by blast
  then have w2: "snd (ping env_up tcp_client ?w1) = ?w2"
    by (simp add: c)
  from U ev(2) c(5) have "monitor_body env_up (tcp_client, ?w1) =
      (case defaultPingHandler env_up None (tcp_client, snd (ping env_up tcp_client ?w1)) of
         None \<Rightarrow> Panicked | Some s1 \<Rightarrow> Continue s1)"
    by blast
  moreover from U have "monitor_tick env_up (tcp_client, ?w1) =
      (if closed tcp_client then Stopped else monitor_body env_up (tcp_client, ?w1))"
    by blast
  ultimately have tick2: "monitor_tick env_up (tcp_client, ?w1) = Continue (tcp_client, ?w2)"
    using c(2) w2 by (simp add: defaultPingHandler_def)
  from T tick1 have "monitor [env_up, env_up] (tcp_client, tcp_world) =
      monitor [env_up] (tcp_client, ?w1)"
    by blast
  moreover from U tick2 have "monitor [env_up] (tcp_client, ?w1) = monitor [] (tcp_client, ?w2)"
    by blast
  moreover have "monitor [] (tcp_client, ?w2) = Continue (tcp_client, ?w2)"
    by simp
  ultimately have two: "monitor [env_up, env_up] (tcp_client, tcp_world) =
      Continue (tcp_client, ?w2)"
    by simp

  note V = monitor_tick_cases [where e = ?bad and c = tcp_client and w = tcp_world
      and err = "Some (ErrOther ''no such method'')"]
  from V have "snd (ping ?bad tcp_client tcp_world) =
      tcp_world\<lparr>goCalls := goCalls tcp_world @
        (case getClient tcp_client of
           None \<Rightarrow> []
         | Some x \<Rightarrow> [(x, pingServiceMethod (dialOptions tcp_client), EmptyStruct)])\<rparr>"
    by blast
  then have wb: "snd (ping ?bad tcp_client tcp_world) = ?w1"
    by (simp add: c)
  from V ev(3) c(5) have "monitor_body ?bad (tcp_client, tcp_world) =
      (case defaultPingHandler ?bad (Some (ErrOther ''no such method''))
              (tcp_client, snd (ping ?bad tcp_client tcp_world)) of
         None \<Rightarrow> Panicked | Some s1 \<Rightarrow> Continue s1)"
    by blast
  moreover from V have "monitor_tick ?bad (tcp_client, tcp_world) =
      (if closed tcp_client then Stopped else monitor_body ?bad (tcp_client, tcp_world))"
    by blast
  ultimately have bad: "monitor_tick ?bad (tcp_client, tcp_world) =
      Continue (tcp_client,
                tcp_world\<lparr>goCalls := [?P],
                  logged := [(defaultLogger, ''[error][rpcx]: ping: no such method'')]\<rparr>)"
    using c(2) wb
    by (simp add: defaultPingHandler_def Errorf_def tcp_client_def tcp_options_def
        tcp_world_def)

  note W = monitor_tick_cases [where e = env_stalled and c = tcp_client and w = tcp_world
      and s = "(tcp_client, tcp_world)" and es = "[env_up]"]
  from W ev(4) have "monitor_body env_stalled (tcp_client, tcp_world) = Stuck"
    by blast
  moreover from W have "monitor_tick env_stalled (tcp_client, tcp_world) =
      (if closed tcp_client then Stopped else monitor_body env_stalled (tcp_client, tcp_world))"
    by blast
  ultimately have stuck: "monitor_tick env_stalled (tcp_client, tcp_world) = Stuck"
    using c(2) by simp
  from W stuck have stuck2: "monitor [env_stalled, env_up] (tcp_client, tcp_world) = Stuck"
    by blast

  have g: "go_returns ?slow 0 ''Health.Ping'' EmptyStruct = Some 0"
    by (simp add: env_up_def)
  have d: "\<forall>j. call_Done ?slow 0 (pingServiceMethod (dialOptions tcp_client)) EmptyStruct = Some j
             \<longrightarrow> 3000000000 < j"
    by simp
  note X = monitor_tick_cases [where e = ?slow and c = tcp_client and w = tcp_world
      and x = 0 and k = 0]
  from X c(3,4) g d have slow: "fst (ping ?slow tcp_client tcp_world) =
      Returned (Some DeadlineExceeded)"
    unfolding c(6) by blast

  have n: "pingHandler (dialOptions no_handler_client) = None"
    "\<not> closed no_handler_client"
    "fst (ping env_up no_handler_client tcp_world) = Returned None"
    by (simp_all add: no_handler_client_def ping_def callContext_def rpc_Client_Go_def
        select2_def ctx_Done_after_def ctx_Done_def context_WithTimeout_def example_defs
        getClient_def Second_def Millisecond_def)
  note N = monitor_tick_cases [where e = env_up and c = no_handler_client and w = tcp_world
      and err = None and s = "(no_handler_client, tcp_world)" and es = "[env_up]"]
  from N n(1,3) have "monitor_body env_up (no_handler_client, tcp_world) = Panicked"
    by blast
  moreover from N have "monitor_tick env_up (no_handler_client, tcp_world) =
      (if closed no_handler_client then Stopped
       else monitor_body env_up (no_handler_client, tcp_world))"
    by blast
  ultimately have panic: "monitor_tick env_up (no_handler_client, tcp_world) = Panicked"
    using n(2) by simp
  from N panic have panic2: "monitor [env_up, env_up] (no_handler_client, tcp_world) = Panicked"
    by blast

  let ?h = "\<lambda>err :: error option. [(env_up, ApiClose)]"
  let ?s3 = "(closing_handler_client\<lparr>closed := True\<rparr>, tcp_world\<lparr>closing := {0}, goCalls := [?P]\<rparr>)"
  have u: "pingHandler (dialOptions closing_handler_client) = Some (UserHandler ?h)"
    "\<not> closed closing_handler_client"
    "fst (ping env_up closing_handler_client tcp_world) = Returned None"
    "snd (ping env_up closing_handler_client tcp_world) = ?w1"
    by (simp_all add: closing_handler_client_def ping_def callContext_def rpc_Client_Go_def
        select2_def ctx_Done_after_def ctx_Done_def context_WithTimeout_def example_defs
        getClient_def Second_def Millisecond_def)
  note H = monitor_tick_cases [where e = env_up and c = closing_handler_client
      and w = tcp_world and err = None and h = ?h
      and s = "(closing_handler_client, tcp_world)" and ?s2.0 = ?s3 and es = "[env_up]"]
  from H u(1,3) have "monitor_body env_up (closing_handler_client, tcp_world) =
      Continue (run_api (?h None)
                  (closing_handler_client, snd (ping env_up closing_handler_client tcp_world)))"
    by blast
  moreover from H have "monitor_tick env_up (closing_handler_client, tcp_world) =
      (if closed closing_handler_client then Stopped
       else monitor_body env_up (closing_handler_client, tcp_world))"
    by blast
  ultimately have user: "monitor_tick env_up (closing_handler_client, tcp_world) = Continue ?s3"
    using u(2,4)
    by (simp add: Close_def rpc_Client_Close_def getClient_def closing_handler_client_def
        tcp_client_def tcp_world_def env_up_def)
  note S = monitor_tick_cases [where e = env_up and c = "closing_handler_client\<lparr>closed := True\<rparr>"
      and w = "tcp_world\<lparr>closing := {0}, goCalls := [?P]\<rparr>" and es = "[]"]
  from S have "monitor [env_up] ?s3 = Stopped"
    by simp
  moreover from H user have "monitor [env_up, env_up] (closing_handler_client, tcp_world) =
      monitor [env_up] ?s3"
    by blast
  ultimately have user2: "monitor [env_up, env_up] (closing_handler_client, tcp_world) = Stopped"
    by simp
  show ?thesis
    by (intro conjI)
       (rule c stopped Dial_tcp later p1 tick1 two ev bad stuck stuck2 g slow n panic panic2
          u user user2)+
qed

subsection \<open>C9: the default heartbeat handler\<close>

text \<open>
  C9. On a \<^verbatim>\<open>nil\<close> probe result \<^verbatim>\<open>defaultPingHandler\<close> changes nothing. On an error
  other than \<^verbatim>\<open>ErrShutdown\<close> it writes one line to the client's logger and changes
  nothing else: it does not reconnect. On \<^verbatim>\<open>ErrShutdown\<close> it calls \<^verbatim>\<open>Reset\<close>: when
  that succeeds the state is the one \<^verbatim>\<open>Reset\<close> leaves and nothing is logged, and when
  it fails the state is the one \<^verbatim>\<open>Reset\<close> leaves with one more line in the log,
  saying why.
\<close>

theorem defaultPingHandler_cases:
  "defaultPingHandler e None (c, w) = Some (c, w) \<and>
   (err \<noteq> ErrShutdown \<longrightarrow> logger (dialOptions c) = Some lg \<longrightarrow>
      defaultPingHandler e (Some err) (c, w) =
        Some (c, w\<lparr>logged := logged w @
                      [(lg, ''[error][rpcx]: ping: '' @ error_text err)]\<rparr>)) \<and>
   (Reset e (c, w) = (None, s1) \<longrightarrow>
      defaultPingHandler e (Some ErrShutdown) (c, w) = Some s1) \<and>
   (Reset e (c, w) = (Some err', (c1, w1)) \<longrightarrow> logger (dialOptions c) = Some lg \<longrightarrow>
      defaultPingHandler e (Some ErrShutdown) (c, w) =
        Some (c1, w1\<lparr>logged := logged w1 @
                       [(lg, ''[error][rpcx]: Reset: '' @ error_text err')]\<rparr>))"
proof (intro conjI impI)
  show "defaultPingHandler e None (c, w) = Some (c, w)"
    by (simp add: defaultPingHandler_def)
next
  assume "err \<noteq> ErrShutdown" and "logger (dialOptions c) = Some lg"
  then show "defaultPingHandler e (Some err) (c, w) =
      Some (c, w\<lparr>logged := logged w @ [(lg, ''[error][rpcx]: ping: '' @ error_text err)]\<rparr>)"
    by (simp add: defaultPingHandler_def Errorf_def)
next
  assume "Reset e (c, w) = (None, s1)"
  then show "defaultPingHandler e (Some ErrShutdown) (c, w) = Some s1"
    by (simp add: defaultPingHandler_def)
next
  assume r: "Reset e (c, w) = (Some err', (c1, w1))" and l: "logger (dialOptions c) = Some lg"
  have "dialOptions (fst (snd (Reset e (c, w)))) = dialOptions (fst (c, w))"
    by (rule Reset_dialOptions)
  with r l have "logger (dialOptions c1) = Some lg" by simp
  with r show "defaultPingHandler e (Some ErrShutdown) (c, w) =
      Some (c1, w1\<lparr>logged := logged w1 @ [(lg, ''[error][rpcx]: Reset: '' @ error_text err')]\<rparr>)"
    by (simp add: defaultPingHandler_def Errorf_def)
qed

theorem defaultPingHandler_cases_witness:
  "defaultPingHandler env_up None (tcp_client, tcp_world) = Some (tcp_client, tcp_world) \<and>
   DeadlineExceeded \<noteq> ErrShutdown \<and>
   logger (dialOptions tcp_client) = Some defaultLogger \<and>
   defaultPingHandler env_up (Some DeadlineExceeded) (tcp_client, tcp_world) =
     Some (tcp_client,
           tcp_world\<lparr>logged :=
             [(defaultLogger, ''[error][rpcx]: ping: context deadline exceeded'')]\<rparr>) \<and>
   Reset env_up (tcp_client, tcp_world) =
     (None, (tcp_client\<lparr>client := Some 1\<rparr>,
             tcp_world\<lparr>closing := {0}, nextSession := 2,
               dials := dials tcp_world @ dials tcp_world\<rparr>)) \<and>
   defaultPingHandler env_up (Some ErrShutdown) (tcp_client, tcp_world) =
     Some (tcp_client\<lparr>client := Some 1\<rparr>,
           tcp_world\<lparr>closing := {0}, nextSession := 2,
             dials := dials tcp_world @ dials tcp_world\<rparr>) \<and>
   Reset env_refused (tcp_client, tcp_world) =
     (Some (ErrOther ''connection refused''), before_close) \<and>
   defaultPingHandler env_refused (Some ErrShutdown) (tcp_client, tcp_world) =
     Some (fst before_close,
           (snd before_close)\<lparr>logged :=
             [(defaultLogger, ''[error][rpcx]: Reset: connection refused'')]\<rparr>)"
proof -
  have l: "logger (dialOptions tcp_client) = Some defaultLogger"
    by (simp add: tcp_client_def tcp_options_def)
  have r1: "Reset env_up (tcp_client, tcp_world) =
      (None, (tcp_client\<lparr>client := Some 1\<rparr>,
              tcp_world\<lparr>closing := {0}, nextSession := 2,
                dials := dials tcp_world @ dials tcp_world\<rparr>))"
    by (simp add: example_defs operation_defs)
  have r2: "Reset env_refused (tcp_client, tcp_world) =
      (Some (ErrOther ''connection refused''), (fst before_close, snd before_close))"
    by (simp add: before_close_value example_defs operation_defs)
  have e: "logged tcp_world = []" "logged (snd before_close) = []"
    by (simp_all add: before_close_value tcp_world_def)
  show ?thesis
    using defaultPingHandler_cases [of env_up tcp_client tcp_world DeadlineExceeded defaultLogger
        "(tcp_client\<lparr>client := Some 1\<rparr>,
          tcp_world\<lparr>closing := {0}, nextSession := 2,
            dials := dials tcp_world @ dials tcp_world\<rparr>)"]
      defaultPingHandler_cases [of env_refused tcp_client tcp_world DeadlineExceeded
        defaultLogger _ "ErrOther ''connection refused''" "fst before_close" "snd before_close"]
      l r1 r2 e
    by simp
qed

subsection \<open>C10: the close permission\<close>

text \<open>
  C10. Whenever \<^verbatim>\<open>closeCanBeCalled\<close> is false, the session the client holds, if any, has
  had its close attempted (\<open>closePermission_inv\<close>). This holds of the client \<^verbatim>\<open>Dial\<close>
  returns; \<^verbatim>\<open>Reset\<close>, \<^verbatim>\<open>Close\<close>, every step and every run keep it. So in every state
  a client can reach in which the flag is false and a session is held, that session is
  closing already, and \<^verbatim>\<open>Close\<close> returns success there without forwarding: the world
  is as before.
\<close>

theorem closePermission_invariant:
  "(Dial n a opts e0 w0 = (Inr (c0, ts), w1) \<longrightarrow> closePermission_inv (c0, w1)) \<and>
   (closePermission_inv s \<longrightarrow>
      closePermission_inv (snd (Reset e s)) \<and> closePermission_inv (snd (Close e s)) \<and>
      closePermission_inv (exec e p s) \<and> closePermission_inv (run ops s)) \<and>
   (Dial n a opts e0 w0 = (Inr (c0, ts), w1) \<longrightarrow> run ops (c0, w1) = (c, w) \<longrightarrow>
      \<not> closeCanBeCalled c \<longrightarrow> getClient c = Some x \<longrightarrow>
        x \<in> closing w \<and>
        Close e (c, w) = (None, (c\<lparr>closed := True, closeCanBeCalled := True\<rparr>, w)))"
proof (intro conjI impI)
  assume "Dial n a opts e0 w0 = (Inr (c0, ts), w1)"
  then have "lifecycle_inv (c0, w1)" by (rule Dial_lifecycle)
  then show "closePermission_inv (c0, w1)" by (simp add: lifecycle_inv_def)
next
  assume "closePermission_inv s"
  then show "closePermission_inv (snd (Reset e s))" by (rule Reset_closePermission)
next
  assume "closePermission_inv s"
  then show "closePermission_inv (snd (Close e s))" by (rule Close_closePermission)
next
  assume "closePermission_inv s"
  then show "closePermission_inv (exec e p s)" by (rule exec_closePermission)
next
  assume "closePermission_inv s"
  then show "closePermission_inv (run ops s)" by (rule run_closePermission)
next
  assume d: "Dial n a opts e0 w0 = (Inr (c0, ts), w1)"
    and r: "run ops (c0, w1) = (c, w)"
    and f: "\<not> closeCanBeCalled c" and g: "getClient c = Some x"
  from d have "lifecycle_inv (c0, w1)" by (rule Dial_lifecycle)
  then have "closePermission_inv (run ops (c0, w1))"
    by (simp add: lifecycle_inv_def run_closePermission)
  with r f g show "x \<in> closing w"
    by (simp add: closePermission_inv_def close_attempted_def)
  from f g show "Close e (c, w) = (None, (c\<lparr>closed := True, closeCanBeCalled := True\<rparr>, w))"
    by (simp add: Close_def)
qed

theorem closePermission_invariant_witness:
  "Dial ''tcp'' ''h:1'' [WithBlock, WithHeartbeat ''Health.Ping'' 0 None] env_up new_world =
     (Inr (tcp_client, [MonitorTask]), tcp_world) \<and>
   closePermission_inv (tcp_client, tcp_world) \<and>
   closePermission_inv (snd (Reset env_refused (tcp_client, tcp_world))) \<and>
   closePermission_inv (snd (Close env_up (tcp_client, tcp_world))) \<and>
   closePermission_inv (exec env_up Tick (tcp_client, tcp_world)) \<and>
   closePermission_inv (run [(env_refused, Api ApiReset)] (tcp_client, tcp_world)) \<and>
   run [(env_refused, Api ApiReset)] (tcp_client, tcp_world) = before_close \<and>
   \<not> closeCanBeCalled (fst before_close) \<and> getClient (fst before_close) = Some 0 \<and>
   0 \<in> closing (snd before_close) \<and>
   Close env_up before_close =
     (None, ((fst before_close)\<lparr>closed := True, closeCanBeCalled := True\<rparr>, snd before_close))"
proof -
  have b: "run [(env_refused, Api ApiReset)] (tcp_client, tcp_world) =
             (fst before_close, snd before_close)"
    by (simp add: before_close_def)
  have f: "\<not> closeCanBeCalled (fst before_close)" "getClient (fst before_close) = Some 0"
    by (simp_all add: before_close_value getClient_def tcp_client_def)
  have i: "closePermission_inv (tcp_client, tcp_world)"
    by (simp add: closePermission_inv_def tcp_client_def)
  show ?thesis
    using closePermission_invariant [of "''tcp''" "''h:1''"
        "[WithBlock, WithHeartbeat ''Health.Ping'' 0 None]" env_up new_world tcp_client
        "[MonitorTask]" tcp_world "(tcp_client, tcp_world)" env_refused,
        THEN conjunct2, THEN conjunct1]
      closePermission_invariant [of "''tcp''" "''h:1''"
        "[WithBlock, WithHeartbeat ''Health.Ping'' 0 None]" env_up new_world tcp_client
        "[MonitorTask]" tcp_world "(tcp_client, tcp_world)" env_up Tick
        "[(env_refused, Api ApiReset)]" "fst before_close" "snd before_close" 0]
      Dial_tcp b f i
    by simp
qed

end
